theory Spec2Isabelle
  imports Complex_Main "HOL-Library.Stream"
begin

section \<open>The state-vector core of the MBQC simulator (src/state_vec.py)\<close>

text \<open>
  The module keeps a dense amplitude tensor \<open>psi\<close> (a numpy array of shape \<open>(2,)*n\<close>,
  one axis per live qubit) and the list \<open>node_index\<close> that maps qubit labels to axis
  positions. Amplitudes are modelled as exact complex numbers (type \<open>complex\<close>): the
  rounding of \<open>complex128\<close> is not part of the model, so "equal up to floating tolerance"
  is read as equality of the exact values.
\<close>

subsection \<open>Exceptions\<close>

text \<open>The exceptions that the module and the library calls it makes can raise.\<close>

datatype error = ValueError | IndexError | AxisError | AssertionError | KeyError

subsection \<open>Arrays whose axes all have size 2\<close>

text \<open>
  A numpy array of shape \<open>(2,)*n\<close> is written the way the source writes \<open>CZ_TENSOR\<close>:
  a nested pair \<open>[a0, a1]\<close> per axis. \<open>Axis a0 a1\<close> is the array \<open>a\<close> with \<open>a[0] = a0\<close> and
  \<open>a[1] = a1\<close>; \<open>Scalar z\<close> is the 0-d array.
\<close>

datatype ndarray = Scalar complex | Axis ndarray ndarray

text \<open>\<open>len(a.shape)\<close>.\<close>

fun ndim :: "ndarray \<Rightarrow> nat" where
  "ndim (Scalar z) = 0"
| "ndim (Axis a b) = Suc (ndim a)"

text \<open>\<open>a.shape == (2,)*n\<close>: the nesting is rectangular, of depth \<open>n\<close>.\<close>

fun has_rank :: "nat \<Rightarrow> ndarray \<Rightarrow> bool" where
  "has_rank 0 (Scalar z) = True"
| "has_rank (Suc n) (Axis a b) = (has_rank n a \<and> has_rank n b)"
| "has_rank n t = False"

text \<open>\<open>a.flatten()\<close>, in C order (the last axis varies fastest).\<close>

fun flatten :: "ndarray \<Rightarrow> complex list" where
  "flatten (Scalar z) = [z]"
| "flatten (Axis a b) = flatten a @ flatten b"

text \<open>\<open>v.reshape((2,)*n)\<close> of a flat vector \<open>v\<close> of \<open>2 ^ n\<close> entries.\<close>

fun reshape :: "nat \<Rightarrow> complex list \<Rightarrow> ndarray" where
  "reshape 0 v = Scalar (hd v)"
| "reshape (Suc n) v = Axis (reshape n (take (2 ^ n) v)) (reshape n (drop (2 ^ n) v))"

text \<open>\<open>np.kron(u, v)\<close> of two flat vectors: entry \<open>i * len(v) + j\<close> is \<open>u[i] * v[j]\<close>.\<close>

definition kron :: "complex list \<Rightarrow> complex list \<Rightarrow> complex list" where
  "kron u v = concat (map (\<lambda>x. map (\<lambda>y. x * y) v) u)"

text \<open>\<open>a.take(indices=i, axis=ax)\<close> for \<open>i\<close> in \<open>{0, 1}\<close> and \<open>ax < a.ndim\<close>.\<close>

fun take_nd :: "nat \<Rightarrow> nat \<Rightarrow> ndarray \<Rightarrow> ndarray" where
  "take_nd i 0 (Axis a b) = (if i = 0 then a else b)"
| "take_nd i (Suc ax) (Axis a b) = Axis (take_nd i ax a) (take_nd i ax b)"
| "take_nd i ax (Scalar z) = Scalar z"

text \<open>\<open>a[i0][i1]...\<close>: one entry, by its multi-index.\<close>

fun item :: "ndarray \<Rightarrow> nat list \<Rightarrow> complex" where
  "item (Scalar z) ix = z"
| "item (Axis a b) [] = 0"
| "item (Axis a b) (i # ix) = item (if i = 0 then a else b) ix"

text \<open>Elementwise \<open>a + b\<close> of two arrays of one shape, \<open>c * a\<close> and \<open>a / c\<close> for a scalar.\<close>

fun add_nd :: "ndarray \<Rightarrow> ndarray \<Rightarrow> ndarray" where
  "add_nd (Scalar x) (Scalar y) = Scalar (x + y)"
| "add_nd (Axis a b) (Axis c d) = Axis (add_nd a c) (add_nd b d)"
| "add_nd a b = a"

fun scale_nd :: "complex \<Rightarrow> ndarray \<Rightarrow> ndarray" where
  "scale_nd c (Scalar x) = Scalar (c * x)"
| "scale_nd c (Axis a b) = Axis (scale_nd c a) (scale_nd c b)"

fun div_nd :: "ndarray \<Rightarrow> complex \<Rightarrow> ndarray" where
  "div_nd (Scalar x) c = Scalar (x / c)"
| "div_nd (Axis a b) c = Axis (div_nd a c) (div_nd b c)"

text \<open>
  \<open>np.moveaxis(r, 0, ax)\<close>: the first axis of \<open>r\<close> goes to position \<open>ax\<close>, the other axes
  keep their order. For \<open>ax > 0\<close> the new first axis is the old second one, and below it the
  old first axis still has to travel \<open>ax - 1\<close> places.
\<close>

fun moveaxis0 :: "nat \<Rightarrow> ndarray \<Rightarrow> ndarray" where
  "moveaxis0 0 r = r"
| "moveaxis0 (Suc ax) (Axis (Axis a0 a1) (Axis b0 b1)) =
     Axis (moveaxis0 ax (Axis a0 b0)) (moveaxis0 ax (Axis a1 b1))"
| "moveaxis0 (Suc ax) r = r"

text \<open>
  \<open>np.tensordot(op, psi, (1, ax))\<close> for a 2x2 matrix \<open>op\<close>: the result \<open>r\<close> has the free axis
  of \<open>op\<close> first, then the axes of \<open>psi\<close> other than \<open>ax\<close>, and
  \<open>r[i] = op[i][0] * psi.take(0, ax) + op[i][1] * psi.take(1, ax)\<close>.
\<close>

definition tensordot1 :: "ndarray \<Rightarrow> ndarray \<Rightarrow> nat \<Rightarrow> ndarray" where
  "tensordot1 op a ax =
     Axis (add_nd (scale_nd (item op [0, 0]) (take_nd 0 ax a))
                  (scale_nd (item op [0, 1]) (take_nd 1 ax a)))
          (add_nd (scale_nd (item op [1, 0]) (take_nd 0 ax a))
                  (scale_nd (item op [1, 1]) (take_nd 1 ax a)))"

text \<open>
  An axis argument as numpy reads it: \<open>-n \<le> ax < n\<close> is valid for an array of \<open>n\<close> axes,
  and a negative one counts from the end.
\<close>

definition axis_ok :: "nat \<Rightarrow> int \<Rightarrow> bool" where
  "axis_ok n ax = (- int n \<le> ax \<and> ax < int n)"

definition norm_axis :: "nat \<Rightarrow> int \<Rightarrow> nat" where
  "norm_axis n ax = nat (if ax < 0 then ax + int n else ax)"

text \<open>
  \<open>a[..., k, ..., l, ...]\<close> with \<open>k\<close> at axis \<open>c\<close> and \<open>l\<close> at axis \<open>t\<close> (\<open>c \<noteq> t\<close>): after the
  first \<open>take\<close> the axes behind the taken one have moved down by one.
\<close>

definition take2 :: "nat \<Rightarrow> nat \<Rightarrow> nat \<Rightarrow> nat \<Rightarrow> ndarray \<Rightarrow> ndarray" where
  "take2 k c l t a =
     (if c < t then take_nd l (t - 1) (take_nd k c a) else take_nd k (c - 1) (take_nd l t a))"

text \<open>
  The contraction of \<open>np.tensordot(T, a, ((2, 3), (c, t)))\<close> for a tensor \<open>T\<close> of shape
  (2,2,2,2): the result \<open>r\<close> has the two free axes of \<open>T\<close> first, then the axes of \<open>a\<close> other
  than \<open>c\<close> and \<open>t\<close>, and \<open>r[i][j]\<close> is the sum over \<open>k, l\<close> of
  \<open>T[i][j][k][l] * a[..., k at c, ..., l at t, ...]\<close>.
\<close>

definition contract2 :: "ndarray \<Rightarrow> ndarray \<Rightarrow> nat \<Rightarrow> nat \<Rightarrow> nat \<Rightarrow> nat \<Rightarrow> ndarray" where
  "contract2 T a c t i j =
     add_nd (add_nd (scale_nd (item T [i, j, 0, 0]) (take2 0 c 0 t a))
                    (scale_nd (item T [i, j, 0, 1]) (take2 0 c 1 t a)))
            (add_nd (scale_nd (item T [i, j, 1, 0]) (take2 1 c 0 t a))
                    (scale_nd (item T [i, j, 1, 1]) (take2 1 c 1 t a)))"

text \<open>
  \<open>np.tensordot(T, a, ((2, 3), axes))\<close>. numpy first reads \<open>a.shape[axes[k]]\<close> (IndexError
  for an axis the array does not have), then makes negative axes positive, and the
  transpose of \<open>a\<close> that brings the two axes to the front raises ValueError when they are
  the same axis.
\<close>

definition tensordot2 :: "ndarray \<Rightarrow> ndarray \<Rightarrow> int \<times> int \<Rightarrow> error + ndarray" where
  "tensordot2 T a axes =
     (let n = ndim a in
      if \<not> axis_ok n (fst axes) \<or> \<not> axis_ok n (snd axes) then Inl IndexError
      else
        let c = norm_axis n (fst axes); t = norm_axis n (snd axes) in
        if c = t then Inl ValueError
        else Inr (Axis (Axis (contract2 T a c t 0 0) (contract2 T a c t 0 1))
                       (Axis (contract2 T a c t 1 0) (contract2 T a c t 1 1))))"

text \<open>
  \<open>np.moveaxis(r, (0, 1), axes)\<close>: axis 0 of \<open>r\<close> goes to position \<open>axes[0]\<close>, axis 1 to
  position \<open>axes[1]\<close>, the other axes keep their order. AxisError for a destination the
  array does not have, ValueError for a repeated destination.
\<close>

definition moveaxis01 :: "ndarray \<Rightarrow> int \<times> int \<Rightarrow> error + ndarray" where
  "moveaxis01 r axes =
     (let n = ndim r in
      if \<not> axis_ok n (fst axes) \<or> \<not> axis_ok n (snd axes) then Inl AxisError
      else
        let c = norm_axis n (fst axes); t = norm_axis n (snd axes) in
        if c = t then Inl ValueError
        else if c < t then
          Inr (moveaxis0 c (Axis (moveaxis0 (t - 1) (take_nd 0 0 r))
                                 (moveaxis0 (t - 1) (take_nd 1 0 r))))
        else
          Inr (moveaxis0 t (Axis (moveaxis0 (c - 1) (take_nd 0 1 r))
                                 (moveaxis0 (c - 1) (take_nd 1 1 r)))))"

text \<open>\<open>np.ones((2,)*n) * z\<close>: every entry is \<open>z\<close>.\<close>

fun full :: "nat \<Rightarrow> complex \<Rightarrow> ndarray" where
  "full 0 z = Scalar z"
| "full (Suc n) z = Axis (full n z) (full n z)"

text \<open>\<open>np.dot(u, v)\<close> of two flat vectors of one length.\<close>

definition dot :: "complex list \<Rightarrow> complex list \<Rightarrow> complex" where
  "dot u v = sum_list (map2 (\<lambda>x y. x * y) u v)"

text \<open>\<open>np.isclose(a, b)\<close> with the default tolerances \<open>rtol = 1e-05\<close>, \<open>atol = 1e-08\<close>.\<close>

definition isclose :: "real \<Rightarrow> real \<Rightarrow> bool" where
  "isclose a b = (\<bar>a - b\<bar> \<le> 1 / 10 ^ 8 + 1 / 10 ^ 5 * \<bar>b\<bar>)"

subsection \<open>Python lists\<close>

text \<open>\<open>xs.index(v)\<close>: the position of the first \<open>v\<close>; ValueError when there is none.\<close>

fun list_index :: "int list \<Rightarrow> int \<Rightarrow> error + nat" where
  "list_index [] v = Inl ValueError"
| "list_index (x # xs) v =
     (if x = v then Inr 0
      else (case list_index xs v of Inl e \<Rightarrow> Inl e | Inr i \<Rightarrow> Inr (Suc i)))"

text \<open>\<open>xs.remove(v)\<close>: deletes the first \<open>v\<close>; ValueError when there is none.\<close>

fun list_remove :: "int list \<Rightarrow> int \<Rightarrow> error + int list" where
  "list_remove [] v = Inl ValueError"
| "list_remove (x # xs) v =
     (if x = v then Inr xs
      else (case list_remove xs v of Inl e \<Rightarrow> Inl e | Inr ys \<Rightarrow> Inr (x # ys)))"

text \<open>\<open>xs[i]\<close>: a negative index counts from the end; IndexError out of range.\<close>

definition getitem :: "int list \<Rightarrow> int \<Rightarrow> error + int" where
  "getitem xs i =
     (if 0 \<le> i \<and> i < int (length xs) then Inr (xs ! nat i)
      else if i < 0 \<and> - int (length xs) \<le> i then Inr (xs ! nat (int (length xs) + i))
      else Inl IndexError)"

text \<open>\<open>sum(xs[i] for i in domain)\<close>: stops at the first index that raises.\<close>

fun sum_at :: "int list \<Rightarrow> int list \<Rightarrow> error + int" where
  "sum_at xs [] = Inr 0"
| "sum_at xs (i # is) =
     (case getitem xs i of Inl e \<Rightarrow> Inl e
      | Inr v \<Rightarrow> (case sum_at xs is of Inl e \<Rightarrow> Inl e | Inr s \<Rightarrow> Inr (v + s)))"

subsection \<open>Fixed operators\<close>

text \<open>
  Modelled from the spec: the objects \<open>X\<close> and \<open>Z\<close> imported from \<open>.clifford\<close> are not in the
  source tree; the spec names them "the corresponding fixed 2x2 Pauli operator", so
  \<open>X.matrix\<close> and \<open>Z.matrix\<close> are the Pauli matrices.
\<close>

definition X_matrix :: ndarray where
  "X_matrix = Axis (Axis (Scalar 0) (Scalar 1)) (Axis (Scalar 1) (Scalar 0))"

definition Z_matrix :: ndarray where
  "Z_matrix = Axis (Axis (Scalar 1) (Scalar 0)) (Axis (Scalar 0) (Scalar (- 1)))"

text \<open>
  Modelled from the spec: the table \<open>clifford.CLIFFORD\<close> is not in the source tree;
  \<open>meas_op\<close> reads its entries 1, 2 and 3, which the spec calls "the three Pauli
  observables" X, Y, Z. Entry 0 is the identity.
\<close>

definition Y_matrix :: ndarray where
  "Y_matrix = Axis (Axis (Scalar 0) (Scalar (- \<i>))) (Axis (Scalar \<i>) (Scalar 0))"

definition eye2 :: ndarray where
  "eye2 = Axis (Axis (Scalar 1) (Scalar 0)) (Axis (Scalar 0) (Scalar 1))"

definition CLIFFORD :: "ndarray list" where
  "CLIFFORD = [eye2, X_matrix, Y_matrix, Z_matrix]"

text \<open>
  Modelled from the spec: \<open>plus\<close>, imported from \<open>.state\<close>, is not in the source tree;
  the spec describes it as the single-qubit state with "amplitude 1/sqrt 2 on both basis
  values".
\<close>

definition plus :: ndarray where
  "plus = Axis (Scalar (complex_of_real (1 / sqrt 2))) (Scalar (complex_of_real (1 / sqrt 2)))"

text \<open>The literals \<open>CZ_TENSOR\<close> and \<open>SWAP_TENSOR\<close>, entry by entry.\<close>

definition CZ_TENSOR :: ndarray where
  "CZ_TENSOR =
     Axis (Axis (Axis (Axis (Scalar 1) (Scalar 0)) (Axis (Scalar 0) (Scalar 0)))
                (Axis (Axis (Scalar 0) (Scalar 1)) (Axis (Scalar 0) (Scalar 0))))
          (Axis (Axis (Axis (Scalar 0) (Scalar 0)) (Axis (Scalar 1) (Scalar 0)))
                (Axis (Axis (Scalar 0) (Scalar 0)) (Axis (Scalar 0) (Scalar (- 1)))))"

definition SWAP_TENSOR :: ndarray where
  "SWAP_TENSOR =
     Axis (Axis (Axis (Axis (Scalar 1) (Scalar 0)) (Axis (Scalar 0) (Scalar 0)))
                (Axis (Axis (Scalar 0) (Scalar 0)) (Axis (Scalar 1) (Scalar 0))))
          (Axis (Axis (Axis (Scalar 0) (Scalar 1)) (Axis (Scalar 0) (Scalar 0)))
                (Axis (Axis (Scalar 0) (Scalar 0)) (Axis (Scalar 0) (Scalar 1))))"

text \<open>
  \<open>meas_op(vec, measurement)\<close>: starts from \<open>eye(2) / 2\<close> and adds
  \<open>sign * vec[i] * CLIFFORD[i + 1] / 2\<close> for \<open>i = 0, 1, 2\<close>, with \<open>sign = (-1) ** measurement\<close>.
  \<open>vec\<close> is a tuple of three floats and \<open>component vec i\<close> is \<open>vec[i]\<close>.
\<close>

fun component :: "real \<times> real \<times> real \<Rightarrow> nat \<Rightarrow> real" where
  "component (x, y, z) i = (if i = 0 then x else if i = 1 then y else z)"

definition meas_op :: "real \<times> real \<times> real \<Rightarrow> nat \<Rightarrow> ndarray" where
  "meas_op vec measurement =
     (let op_mat = div_nd eye2 2;
          sign = (- 1) ^ measurement
      in fold (\<lambda>i op_mat.
                 add_nd op_mat
                   (div_nd (scale_nd (complex_of_real (sign * component vec i))
                              (CLIFFORD ! (i + 1))) 2))
              [0, 1, 2] op_mat)"

subsection \<open>The class StateVec\<close>

record StateVec =
  psi :: ndarray
  node_index :: "int list"

text \<open>
  \<open>StateVec.__init__(input_nodes)\<close>: all \<open>2 ^ n\<close> amplitudes are \<open>1 / 2 ** (n / 2)\<close> and the
  label list is the argument itself (the same list object; see the store below).
\<close>

definition init :: "int list \<Rightarrow> StateVec" where
  "init input_nodes =
     (let nQubits = length input_nodes in
      \<lparr>psi = full nQubits (complex_of_real (1 / 2 powr (real nQubits / 2))),
       node_index = input_nodes\<rparr>)"

text \<open>The module-level \<open>_norm(psi)\<close>: \<open>sqrt(abs(sum(conj(psi) * psi)))\<close> over the flat vector.\<close>

definition norm_nd :: "ndarray \<Rightarrow> real" where
  "norm_nd a = sqrt (cmod (sum_list (map2 (\<lambda>x y. x * y) (map cnj (flatten a)) (flatten a))))"

text \<open>\<open>StateVec.tensor(other)\<close>: the Kronecker product of the flat vectors, reshaped.\<close>

definition tensor :: "StateVec \<Rightarrow> ndarray \<Rightarrow> StateVec" where
  "tensor self other =
     (let new_shape = ndim (psi self) + ndim other in
      self\<lparr>psi := reshape new_shape (kron (flatten (psi self)) (flatten other))\<rparr>)"

text \<open>\<open>StateVec.prepare_state(target)\<close>. There is no check that \<open>target\<close> is new.\<close>

definition prepare_state :: "StateVec \<Rightarrow> int \<Rightarrow> StateVec" where
  "prepare_state self target =
     (let new_qubit = plus;
          self1 = tensor self new_qubit
      in self1\<lparr>node_index := node_index self1 @ [target]\<rparr>)"

text \<open>\<open>StateVec.entangle(control, target)\<close>: both labels go through \<open>node_index.index\<close>.\<close>

definition entangle :: "StateVec \<Rightarrow> int \<Rightarrow> int \<Rightarrow> error + StateVec" where
  "entangle self control target =
     (case list_index (node_index self) control of
        Inl e \<Rightarrow> Inl e
      | Inr control \<Rightarrow>
     (case list_index (node_index self) target of
        Inl e \<Rightarrow> Inl e
      | Inr target \<Rightarrow>
     (case tensordot2 CZ_TENSOR (psi self) (int control, int target) of
        Inl e \<Rightarrow> Inl e
      | Inr r \<Rightarrow>
     (case moveaxis01 r (int control, int target) of
        Inl e \<Rightarrow> Inl e
      | Inr p \<Rightarrow> Inr (self\<lparr>psi := p\<rparr>)))))"

text \<open>
  \<open>StateVec.swap(qubits)\<close>: the two integers of \<open>qubits\<close> are handed to \<open>tensordot\<close> and
  \<open>moveaxis\<close> as axis numbers; \<open>node_index\<close> is not read.
\<close>

definition swap :: "StateVec \<Rightarrow> int \<times> int \<Rightarrow> error + StateVec" where
  "swap self qubits =
     (case tensordot2 SWAP_TENSOR (psi self) qubits of
        Inl e \<Rightarrow> Inl e
      | Inr r \<Rightarrow>
     (case moveaxis01 r qubits of
        Inl e \<Rightarrow> Inl e
      | Inr p \<Rightarrow> Inr (self\<lparr>psi := p\<rparr>)))"

text \<open>
  The module-level \<open>single_qubit_evolution(psi, op, index)\<close>: \<open>np.tensordot(op, psi, (1, index))\<close>
  followed by \<open>np.moveaxis(psi, 0, index)\<close>. Its first argument is untyped, and the module
  calls it with two kinds of value: \<open>expectation_single\<close> passes an array, the method
  \<open>StateVec.single_qubit_evolution\<close> passes the session object \<open>self\<close>. \<open>tensordot\<close> starts with
  \<open>np.asarray(psi)\<close> and then reads \<open>psi.shape[index]\<close>, which raises IndexError when there is
  no such axis. \<open>np.asarray\<close> of an object that is neither an array nor a sequence (the class
  defines no \<open>__array__\<close>, \<open>__len__\<close> or \<open>__getitem__\<close>) is a 0-d array of dtype object: its
  shape is \<open>()\<close>, so for a session object every \<open>index\<close> raises IndexError.
\<close>

datatype array_like = Array ndarray | Object StateVec

definition single_qubit_evolution :: "array_like \<Rightarrow> ndarray \<Rightarrow> nat \<Rightarrow> error + ndarray" where
  "single_qubit_evolution psi_arg op index =
     (case psi_arg of
        Array a \<Rightarrow>
          if index < ndim a then Inr (moveaxis0 index (tensordot1 op a index))
          else Inl IndexError
      | Object obj \<Rightarrow> Inl IndexError)"

text \<open>
  The method \<open>StateVec.single_qubit_evolution(op, index)\<close>:
  \<open>return single_qubit_evolution(self, op, index)\<close>. The argument is \<open>self\<close>, not \<open>self.psi\<close>.
\<close>

definition StateVec_single_qubit_evolution :: "StateVec \<Rightarrow> ndarray \<Rightarrow> nat \<Rightarrow> error + ndarray" where
  "StateVec_single_qubit_evolution self op index = single_qubit_evolution (Object self) op index"

text \<open>\<open>StateVec.apply_correction(type, index, domain, measurement_results)\<close>.\<close>

definition apply_correction ::
  "StateVec \<Rightarrow> string \<Rightarrow> int \<Rightarrow> int list \<Rightarrow> int list \<Rightarrow> error + StateVec" where
  "apply_correction self type index domain measurement_results =
     (case sum_at measurement_results domain of
        Inl e \<Rightarrow> Inl e
      | Inr s \<Rightarrow>
          if s mod 2 = 1 then
            (case list_index (node_index self) index of
               Inl e \<Rightarrow> Inl e
             | Inr sv_index \<Rightarrow>
                 let cliff_gate = (if type = ''X'' then X_matrix else Z_matrix) in
                 (case StateVec_single_qubit_evolution self cliff_gate sv_index of
                    Inl e \<Rightarrow> Inl e
                  | Inr p \<Rightarrow> Inr (self\<lparr>psi := p\<rparr>)))
          else Inr self)"

text \<open>
  \<open>StateVec.normalize()\<close>: \<open>psi / norm\<close>. numpy does not raise for a zero norm (the entries
  become nan); the callers below are modelled so that this division is only evaluated
  for a non-zero norm.
\<close>

definition normalize :: "StateVec \<Rightarrow> ndarray" where
  "normalize self = (let norm = norm_nd (psi self) in div_nd (psi self) (complex_of_real norm))"

text \<open>
  \<open>StateVec.remove_qubit(index)\<close>. The assertion comes first; \<open>take\<close> raises AxisError for an
  axis the array does not have.
\<close>

definition remove_qubit :: "StateVec \<Rightarrow> nat \<Rightarrow> error + StateVec" where
  "remove_qubit self index =
     (let norm = norm_nd (psi self) in
      if isclose norm 0 then Inl AssertionError
      else if \<not> index < ndim (psi self) then Inl AxisError
      else
        let psi0 = take_nd 0 index (psi self);
            psi_norm = norm_nd psi0;
            self1 = self\<lparr>psi := (if \<not> isclose psi_norm 0 then psi0
                                  else take_nd 1 index (psi self))\<rparr>
        in Inr (self1\<lparr>psi := normalize self1\<rparr>))"

text \<open>
  \<open>StateVec.expectation_single(op, index)\<close>. The result is \<open>None\<close> where numpy computes nan:
  for a tensor of norm 0 the normalized copy is \<open>0 / 0\<close> in every entry.
\<close>

definition expectation_single :: "StateVec \<Rightarrow> ndarray \<Rightarrow> nat \<Rightarrow> error + complex option" where
  "expectation_single self op index =
     (let psi1 = normalize self in
      case single_qubit_evolution (Array psi1) op index of
        Inl e \<Rightarrow> Inl e
      | Inr evolved \<Rightarrow>
          if norm_nd (psi self) = 0 then Inr None
          else Inr (Some (dot (map cnj (flatten psi1)) (flatten evolved))))"

text \<open>
  The measurement planes, and the collaborators of \<open>measure\<close> that are not in the source
  tree. \<open>compute\<close> stands for \<open>pauli.MeasureUpdate.compute(pauli.Plane[plane], s, t, TABLE[vop])\<close>
  and \<open>polar\<close> for \<open>new_plane.polar(angle)\<close>; they are parameters of the model.
\<close>

datatype Plane = XY | YZ | XZ

record MeasureUpdate =
  new_plane :: Plane
  coeff :: real
  add_term :: real

record collaborators =
  compute :: "Plane \<Rightarrow> bool \<Rightarrow> bool \<Rightarrow> int \<Rightarrow> error + MeasureUpdate"
  polar :: "Plane \<Rightarrow> real \<Rightarrow> real \<times> real \<times> real"

text \<open>
  The hidden state of the module \<open>random\<close>: the samples that the coming calls of
  \<open>random.random()\<close> return, in order. A call returns the head and leaves the tail.
\<close>

type_synonym random_state = "real stream"

definition random_random :: "random_state \<Rightarrow> real \<times> random_state" where
  "random_random g = (shd g, stl g)"

text \<open>
  The first part of \<open>StateVec.measure\<close>, lines 135 to 154: from the signals to the draw and the
  choice of the outcome. It is given the arguments of \<open>measure\<close> and, apart from them, the
  state of the module \<open>random\<close> that the call finds; it gives the local variables
  \<open>measurement\<close>, \<open>op\<close> and \<open>loc\<close> as they stand after line 154, and the state of \<open>random\<close>.
\<close>

definition measure_draw ::
  "collaborators \<Rightarrow> StateVec \<Rightarrow> random_state \<Rightarrow> int \<Rightarrow> Plane \<Rightarrow> real \<Rightarrow> int list \<Rightarrow> int list
     \<Rightarrow> int list \<Rightarrow> int \<Rightarrow> (error + nat \<times> ndarray \<times> nat) \<times> random_state" where
  "measure_draw ext self g index plane angle s_domain t_domain measurements vop =
     (case sum_at measurements s_domain of Inl e \<Rightarrow> (Inl e, g) | Inr s_signal \<Rightarrow>
     (case sum_at measurements t_domain of Inl e \<Rightarrow> (Inl e, g) | Inr t_signal \<Rightarrow>
     (case compute ext plane (s_signal mod 2 = 1) (t_signal mod 2 = 1) vop of
        Inl e \<Rightarrow> (Inl e, g)
      | Inr measure_update \<Rightarrow>
          let angle1 = angle * pi;
              angle2 = angle1 * coeff measure_update;
              angle3 = angle2 + add_term measure_update;
              vec = polar ext (new_plane measure_update) angle3;
              op0 = meas_op vec 0
          in
     (case list_index (node_index self) index of Inl e \<Rightarrow> (Inl e, g) | Inr loc \<Rightarrow>
     (case expectation_single self op0 loc of Inl e \<Rightarrow> (Inl e, g) | Inr ex \<Rightarrow>
          let proba_Plus = map_option cmod ex;
              (r, g1) = random_random g;
              measurement = (if (case proba_Plus of None \<Rightarrow> False | Some p \<Rightarrow> r > p)
                             then 1 else 0);
              op = (if measurement = 1 then meas_op vec measurement else op0)
          in (Inr (measurement, op, loc), g1))))))"

text \<open>
  \<open>StateVec.measure(index, plane, angle, s_domain, t_domain, measurements, vop)\<close>. The state
  of \<open>random\<close> is passed in, and handed back next to the result also when the call raises:
  an exception before the draw leaves it as it was, one after the draw leaves the tail.
  A comparison with nan is false.
\<close>

definition measure ::
  "collaborators \<Rightarrow> StateVec \<Rightarrow> random_state \<Rightarrow> int \<Rightarrow> Plane \<Rightarrow> real \<Rightarrow> int list \<Rightarrow> int list
     \<Rightarrow> int list \<Rightarrow> int \<Rightarrow> (error + nat \<times> StateVec) \<times> random_state" where
  "measure ext self g index plane angle s_domain t_domain measurements vop =
     (case sum_at measurements s_domain of Inl e \<Rightarrow> (Inl e, g) | Inr s_signal \<Rightarrow>
     (case sum_at measurements t_domain of Inl e \<Rightarrow> (Inl e, g) | Inr t_signal \<Rightarrow>
     (case compute ext plane (s_signal mod 2 = 1) (t_signal mod 2 = 1) vop of
        Inl e \<Rightarrow> (Inl e, g)
      | Inr measure_update \<Rightarrow>
          let angle1 = angle * pi;
              angle2 = angle1 * coeff measure_update;
              angle3 = angle2 + add_term measure_update;
              vec = polar ext (new_plane measure_update) angle3;
              op0 = meas_op vec 0
          in
     (case list_index (node_index self) index of Inl e \<Rightarrow> (Inl e, g) | Inr loc \<Rightarrow>
     (case expectation_single self op0 loc of Inl e \<Rightarrow> (Inl e, g) | Inr ex \<Rightarrow>
          let proba_Plus = map_option cmod ex;
              (r, g1) = random_random g;
              measurement = (if (case proba_Plus of None \<Rightarrow> False | Some p \<Rightarrow> r > p)
                             then 1 else 0);
              op = (if measurement = 1 then meas_op vec measurement else op0)
          in
     (case StateVec_single_qubit_evolution self op loc of Inl e \<Rightarrow> (Inl e, g1) | Inr p \<Rightarrow>
     (case remove_qubit (self\<lparr>psi := p\<rparr>) loc of Inl e \<Rightarrow> (Inl e, g1) | Inr self1 \<Rightarrow>
     (case list_remove (node_index self1) index of Inl e \<Rightarrow> (Inl e, g1) | Inr ni \<Rightarrow>
        (Inr (measurement, self1\<lparr>node_index := ni\<rparr>), g1)))))))))"

text \<open>
  A session is well formed when its tensor has one axis per entry of \<open>node_index\<close>.
  \<open>__init__\<close> builds such a pair and every method keeps it.
\<close>

definition wf :: "StateVec \<Rightarrow> bool" where
  "wf self = has_rank (length (node_index self)) (psi self)"

subsection \<open>The label-based swap of the spec\<close>

text \<open>
  Modelled from the spec: the contract the spec gives for \<open>swap(labelA, labelB)\<close>, "look up
  both labels' current axes, apply the fixed SWAP tensor, restore axis order". The source
  has no such function; this one resolves the labels the way \<open>entangle\<close> does and then calls
  the source's \<open>swap\<close> on the two axes.
\<close>

definition swap_by_label :: "StateVec \<Rightarrow> int \<times> int \<Rightarrow> error + StateVec" where
  "swap_by_label self labels =
     (case list_index (node_index self) (fst labels) of
        Inl e \<Rightarrow> Inl e
      | Inr a \<Rightarrow>
     (case list_index (node_index self) (snd labels) of
        Inl e \<Rightarrow> Inl e
      | Inr b \<Rightarrow> swap self (int a, int b)))"

subsection \<open>List objects and the default argument of the constructor\<close>

text \<open>
  \<open>self.node_index = input_nodes\<close> stores a reference, and \<open>node_index.append\<close> changes the
  list object it points to. The store maps the address of a list object to its contents.
  The default value \<open>[]\<close> of \<open>input_nodes\<close> is one list object, created when the \<open>def\<close>
  statement runs; \<open>default_input_nodes\<close> is its address.
\<close>

type_synonym store = "nat \<Rightarrow> int list"

record StateVecObj =
  psi_of :: ndarray
  node_index_ref :: nat

definition default_input_nodes :: nat where
  "default_input_nodes = 0"

text \<open>The session as the methods see it: the tensor and the current contents of the list.\<close>

definition view :: "store \<Rightarrow> StateVecObj \<Rightarrow> StateVec" where
  "view h obj = \<lparr>psi = psi_of obj, node_index = h (node_index_ref obj)\<rparr>"

text \<open>\<open>StateVec(input_nodes)\<close> with the list object at address \<open>input_nodes\<close>, and \<open>StateVec()\<close>.\<close>

definition new_StateVec :: "store \<Rightarrow> nat \<Rightarrow> StateVecObj" where
  "new_StateVec h input_nodes =
     \<lparr>psi_of = psi (init (h input_nodes)), node_index_ref = input_nodes\<rparr>"

definition new_StateVec_default :: "store \<Rightarrow> StateVecObj" where
  "new_StateVec_default h = new_StateVec h default_input_nodes"

text \<open>\<open>prepare_state\<close> on an object: the new tensor is assigned, the list object is appended to.\<close>

definition prepare_state_obj :: "store \<Rightarrow> StateVecObj \<Rightarrow> int \<Rightarrow> store \<times> StateVecObj" where
  "prepare_state_obj h obj target =
     (let self1 = prepare_state (view h obj) target
      in (h(node_index_ref obj := node_index self1), obj\<lparr>psi_of := psi self1\<rparr>))"

subsection \<open>The object after a call, and sequences of calls\<close>

text \<open>
  The methods assign to \<open>self.psi\<close> in place. A call that raises leaves the object with
  what had been assigned before the exception; a caller that catches the exception, or
  inspects the session afterwards, sees that object. For the three calls of the life
  cycle that can raise, the definitions below follow the method statement by statement and
  give the exception raised, if any, together with the object after the call.
\<close>

text \<open>
  \<open>entangle\<close>: the two lookups and \<open>tensordot\<close> come before the first assignment (line 93);
  \<open>moveaxis\<close> comes after it, so an exception there would leave the contracted tensor.
\<close>

definition entangle_in_place :: "StateVec \<Rightarrow> int \<Rightarrow> int \<Rightarrow> error option \<times> StateVec" where
  "entangle_in_place self control target =
     (case list_index (node_index self) control of
        Inl e \<Rightarrow> (Some e, self)
      | Inr control \<Rightarrow>
     (case list_index (node_index self) target of
        Inl e \<Rightarrow> (Some e, self)
      | Inr target \<Rightarrow>
     (case tensordot2 CZ_TENSOR (psi self) (int control, int target) of
        Inl e \<Rightarrow> (Some e, self)
      | Inr r \<Rightarrow>
     (case moveaxis01 r (int control, int target) of
        Inl e \<Rightarrow> (Some e, self\<lparr>psi := r\<rparr>)
      | Inr p \<Rightarrow> (None, self\<lparr>psi := p\<rparr>)))))"

text \<open>\<open>swap\<close>: the same two statements, on the axes given.\<close>

definition swap_in_place :: "StateVec \<Rightarrow> int \<times> int \<Rightarrow> error option \<times> StateVec" where
  "swap_in_place self qubits =
     (case tensordot2 SWAP_TENSOR (psi self) qubits of
        Inl e \<Rightarrow> (Some e, self)
      | Inr r \<Rightarrow>
     (case moveaxis01 r qubits of
        Inl e \<Rightarrow> (Some e, self\<lparr>psi := r\<rparr>)
      | Inr p \<Rightarrow> (None, self\<lparr>psi := p\<rparr>)))"

text \<open>
  \<open>apply_correction\<close>: the only assignment is \<open>self.psi = self.single_qubit_evolution(...)\<close>,
  which does not take place when the right-hand side raises.
\<close>

definition apply_correction_in_place ::
  "StateVec \<Rightarrow> string \<Rightarrow> int \<Rightarrow> int list \<Rightarrow> int list \<Rightarrow> error option \<times> StateVec" where
  "apply_correction_in_place self type index domain measurement_results =
     (case sum_at measurement_results domain of
        Inl e \<Rightarrow> (Some e, self)
      | Inr s \<Rightarrow>
          if s mod 2 = 1 then
            (case list_index (node_index self) index of
               Inl e \<Rightarrow> (Some e, self)
             | Inr sv_index \<Rightarrow>
                 let cliff_gate = (if type = ''X'' then X_matrix else Z_matrix) in
                 (case StateVec_single_qubit_evolution self cliff_gate sv_index of
                    Inl e \<Rightarrow> (Some e, self)
                  | Inr p \<Rightarrow> (None, self\<lparr>psi := p\<rparr>)))
          else (None, self))"

text \<open>
  The calls of the life cycle other than \<open>measure\<close>, each with the arguments the caller
  passes, and what one of them does to the session object. \<open>prepare_state\<close> cannot raise.
\<close>

datatype lifecycle_call =
    Prepare int
  | Entangle int int
  | Swap "int \<times> int"
  | Correct string int "int list" "int list"

fun perform :: "lifecycle_call \<Rightarrow> StateVec \<Rightarrow> error option \<times> StateVec" where
  "perform (Prepare target) self = (None, prepare_state self target)"
| "perform (Entangle control target) self = entangle_in_place self control target"
| "perform (Swap qubits) self = swap_in_place self qubits"
| "perform (Correct type index domain measurement_results) self =
     apply_correction_in_place self type index domain measurement_results"

text \<open>
  The session after each call of a sequence, in order. Every call is listed, also one that
  raised and the calls made after it: a caller that stops at the first exception sees a
  prefix of this list.
\<close>

fun sessions_after :: "lifecycle_call list \<Rightarrow> StateVec \<Rightarrow> StateVec list" where
  "sessions_after [] self = []"
| "sessions_after (c # cs) self =
     (let self1 = snd (perform c self) in self1 # sessions_after cs self1)"

subsection \<open>Auxiliary notions for the proofs\<close>

text \<open>The sum of the squared magnitudes of all amplitudes; \<open>_norm\<close> is its square root.\<close>

fun nsq :: "ndarray \<Rightarrow> real" where
  "nsq (Scalar z) = (cmod z)\<^sup>2"
| "nsq (Axis a b) = nsq a + nsq b"

text \<open>
  The array whose slices at axes \<open>c\<close> and \<open>t\<close> are the four given arrays: what
  \<open>np.moveaxis(r, (0, 1), (c, t))\<close> returns for \<open>r = [[r00, r01], [r10, r11]]\<close>.
\<close>

definition place2 :: "nat \<Rightarrow> nat \<Rightarrow> ndarray \<Rightarrow> ndarray \<Rightarrow> ndarray \<Rightarrow> ndarray \<Rightarrow> ndarray" where
  "place2 c t r00 r01 r10 r11 =
     (if c < t then moveaxis0 c (Axis (moveaxis0 (t - 1) (Axis r00 r01)) (moveaxis0 (t - 1) (Axis r10 r11)))
      else moveaxis0 t (Axis (moveaxis0 (c - 1) (Axis r00 r10)) (moveaxis0 (c - 1) (Axis r01 r11))))"

text \<open>
  What \<open>entangle\<close> and \<open>swap\<close> compute on two distinct axes \<open>c\<close> and \<open>t\<close>: CZ negates the
  slice with index 1 on both axes, SWAP exchanges the two mixed slices.
\<close>

definition cz_on :: "nat \<Rightarrow> nat \<Rightarrow> ndarray \<Rightarrow> ndarray" where
  "cz_on c t a = place2 c t (take2 0 c 0 t a) (take2 0 c (Suc 0) t a) (take2 (Suc 0) c 0 t a)
                   (scale_nd (- 1) (take2 (Suc 0) c (Suc 0) t a))"

definition swap_on :: "nat \<Rightarrow> nat \<Rightarrow> ndarray \<Rightarrow> ndarray" where
  "swap_on c t a = place2 c t (take2 0 c 0 t a) (take2 (Suc 0) c 0 t a) (take2 0 c (Suc 0) t a)
                   (take2 (Suc 0) c (Suc 0) t a)"

text \<open>The slice that \<open>remove_qubit\<close> keeps.\<close>

definition kept_slice :: "ndarray \<Rightarrow> nat \<Rightarrow> ndarray" where
  "kept_slice a index =
     (if \<not> isclose (norm_nd (take_nd 0 index a)) 0 then take_nd 0 index a
      else take_nd 1 index a)"

text \<open>
  Stand-in collaborators for concrete runs: the plane is kept, the angle is unchanged and
  the measurement vector is the X axis.
\<close>

definition x_axis_ext :: collaborators where
  "x_axis_ext = \<lparr>compute = (\<lambda>plane s t vop. Inr \<lparr>new_plane = plane, coeff = 1, add_term = 0\<rparr>),
                  polar = (\<lambda>plane angle. (1, 0, 0))\<rparr>"

text \<open>A multi-index without its entry at position \<open>k\<close> (\<open>ix[:k] + ix[k+1:]\<close>), and without two.\<close>

definition del_axis :: "nat \<Rightarrow> nat list \<Rightarrow> nat list" where
  "del_axis k ix = take k ix @ drop (Suc k) ix"

definition del_axes :: "nat \<Rightarrow> nat \<Rightarrow> nat list \<Rightarrow> nat list" where
  "del_axes c t ix =
     (if c < t then del_axis (t - 1) (del_axis c ix) else del_axis (c - 1) (del_axis t ix))"

section \<open>Properties\<close>

lemma has_rank_ndim: "has_rank n a \<Longrightarrow> ndim a = n"
  by (induction n a rule: has_rank.induct) auto

lemma list_index_live:
  "v \<in> set xs \<Longrightarrow> \<exists>i. list_index xs v = Inr i \<and> i < length xs \<and> xs ! i = v"
  by (induction xs) auto

subsection \<open>Shapes, slices and moved axes\<close>

lemma has_rank_take: "has_rank (Suc n) a \<Longrightarrow> ax \<le> n \<Longrightarrow> has_rank n (take_nd i ax a)"
proof (induction i ax a arbitrary: n rule: take_nd.induct)
  case (1 i a b) then show ?case by auto
next
  case (2 i ax a b)
  then obtain m where "n = Suc m" by (cases n) auto
  with 2 show ?case by auto
next
  case (3 i ax z) then show ?case by auto
qed

lemma has_rank_scale: "has_rank n (scale_nd c a) = has_rank n a"
  by (induction n a rule: has_rank.induct) auto

lemma has_rank_div: "has_rank n (div_nd a c) = has_rank n a"
  by (induction n a rule: has_rank.induct) auto

lemma has_rank_add: "has_rank n a \<Longrightarrow> has_rank n b \<Longrightarrow> has_rank n (add_nd a b)"
  by (induction a b arbitrary: n rule: add_nd.induct) (auto elim: has_rank.elims)

lemma has_rank_moveaxis0: "has_rank n r \<Longrightarrow> has_rank n (moveaxis0 ax r)"
proof (induction ax r arbitrary: n rule: moveaxis0.induct)
  case (2 ax a0 a1 b0 b1)
  then obtain m where "n = Suc (Suc m)" by (cases n; (cases "n - 1")?) auto
  with 2 show ?case by auto
qed auto

lemma take_moveaxis0:
  "has_rank n a \<Longrightarrow> has_rank n b \<Longrightarrow> ax \<le> n \<Longrightarrow>
   take_nd i ax (moveaxis0 ax (Axis a b)) = (if i = 0 then a else b)"
proof (induction ax arbitrary: n a b)
  case 0 then show ?case by simp
next
  case (Suc ax)
  then obtain m where n: "n = Suc m" by (cases n) auto
  from Suc n obtain a0 a1 b0 b1 where ab: "a = Axis a0 a1" "b = Axis b0 b1"
    by (cases a; cases b) auto
  with Suc n show ?case by auto
qed

lemma moveaxis0_take:
  "has_rank (Suc n) a \<Longrightarrow> ax \<le> n \<Longrightarrow>
   moveaxis0 ax (Axis (take_nd 0 ax a) (take_nd (Suc 0) ax a)) = a"
proof (induction ax arbitrary: n a)
  case 0 then show ?case by (cases a) auto
next
  case (Suc ax)
  then obtain m where n: "n = Suc m" by (cases n) auto
  from Suc n obtain a0 a1 where a: "a = Axis a0 a1" by (cases a) auto
  with Suc n show ?case by auto
qed

subsection \<open>The norm\<close>

lemma sum_cnj_flat:
  "sum_list (map2 (\<lambda>x y. x * y) (map cnj xs) xs) = complex_of_real (\<Sum>x\<leftarrow>xs. (cmod x)\<^sup>2)"
  by (induction xs) (auto simp: complex_norm_square [symmetric] mult.commute)

lemma sum_flatten_nsq: "(\<Sum>x\<leftarrow>flatten a. (cmod x)\<^sup>2) = nsq a"
  by (induction a) auto

lemma nsq_nonneg: "0 \<le> nsq a"
  by (induction a) auto

lemma norm_nd_nsq: "norm_nd a = sqrt (nsq a)"
  by (simp add: norm_nd_def sum_cnj_flat sum_flatten_nsq nsq_nonneg)

lemma nsq_moveaxis0: "nsq (moveaxis0 ax r) = nsq r"
  by (induction ax r rule: moveaxis0.induct) auto

lemma nsq_take:
  "has_rank (Suc n) a \<Longrightarrow> ax \<le> n \<Longrightarrow> nsq (take_nd 0 ax a) + nsq (take_nd (Suc 0) ax a) = nsq a"
proof (induction ax arbitrary: n a)
  case 0 then show ?case by (cases a) auto
next
  case (Suc ax)
  then obtain m where n: "n = Suc m" by (cases n) auto
  from Suc n obtain a0 a1 where a: "a = Axis a0 a1" by (cases a) auto
  from Suc.prems n a have "has_rank (Suc m) a0" "has_rank (Suc m) a1" "ax \<le> m" by auto
  from Suc.IH [OF this(1,3)] Suc.IH [OF this(2,3)] a show ?case by simp
qed

lemma nsq_scale: "nsq (scale_nd c a) = (cmod c)\<^sup>2 * nsq a"
  by (induction a) (auto simp: norm_mult power_mult_distrib algebra_simps)

lemma nsq_div: "nsq (div_nd a c) = nsq a / (cmod c)\<^sup>2"
  by (induction a) (auto simp: norm_divide power_divide add_divide_distrib)

lemma add_scale0_left: "has_rank n a \<Longrightarrow> has_rank n b \<Longrightarrow> add_nd (scale_nd 0 a) b = b"
  by (induction a b arbitrary: n rule: add_nd.induct) (auto elim: has_rank.elims)

lemma add_scale0_right: "has_rank n a \<Longrightarrow> has_rank n b \<Longrightarrow> add_nd a (scale_nd 0 b) = a"
  by (induction a b arbitrary: n rule: add_nd.induct) (auto elim: has_rank.elims)

lemma scale_one: "scale_nd 1 a = a"
  by (induction a) auto

lemma scale_scale: "scale_nd c (scale_nd d a) = scale_nd (c * d) a"
  by (induction a) auto

subsection \<open>Pauli corrections\<close>

lemma tensordot1_X:
  assumes "has_rank (Suc n) a" "ax \<le> n"
  shows "tensordot1 X_matrix a ax = Axis (take_nd (Suc 0) ax a) (take_nd 0 ax a)"
proof -
  have r: "has_rank n (take_nd 0 ax a)" "has_rank n (take_nd (Suc 0) ax a)"
    using assms by (auto intro: has_rank_take)
  show ?thesis
    by (simp add: tensordot1_def X_matrix_def add_scale0_left [OF r] add_scale0_right [OF r]
        scale_one)
qed

lemma tensordot1_Z:
  assumes "has_rank (Suc n) a" "ax \<le> n"
  shows "tensordot1 Z_matrix a ax = Axis (take_nd 0 ax a) (scale_nd (- 1) (take_nd (Suc 0) ax a))"
proof -
  have r: "has_rank n (take_nd 0 ax a)" "has_rank n (take_nd (Suc 0) ax a)"
    using assms by (auto intro: has_rank_take)
  have r': "has_rank n (scale_nd (- 1) (take_nd (Suc 0) ax a))"
    using r by (simp add: has_rank_scale)
  show ?thesis
    by (simp add: tensordot1_def Z_matrix_def add_scale0_left [OF r(1) r'] add_scale0_right [OF r]
        scale_one)
qed

text \<open>
  The module-level function on an array, with a Pauli X or Z: the result is well shaped,
  has the norm of the argument, and a second application gives the argument back.
\<close>

lemma pauli_evolution:
  assumes "has_rank n a" "ax < n" "g = X_matrix \<or> g = Z_matrix"
  shows "\<exists>p. single_qubit_evolution (Array a) g ax = Inr p \<and> has_rank n p \<and> nsq p = nsq a
             \<and> single_qubit_evolution (Array p) g ax = Inr a"
proof -
  from assms obtain m where n: "n = Suc m" by (cases n) auto
  with assms have a: "has_rank (Suc m) a" and ax: "ax \<le> m" by auto
  have nd: "ndim a = Suc m" using a by (rule has_rank_ndim)
  let ?a0 = "take_nd 0 ax a" and ?a1 = "take_nd (Suc 0) ax a"
  have r: "has_rank m ?a0" "has_rank m ?a1"
    using a ax by (auto intro: has_rank_take)
  have whole: "moveaxis0 ax (Axis ?a0 ?a1) = a"
    using moveaxis0_take [OF a ax] by simp
  have sum: "nsq ?a0 + nsq ?a1 = nsq a"
    using nsq_take [OF a ax] by simp
  from assms(3) show ?thesis
  proof
    assume g: "g = X_matrix"
    let ?p = "moveaxis0 ax (Axis ?a1 ?a0)"
    have p: "single_qubit_evolution (Array a) g ax = Inr ?p"
      using ax by (simp add: single_qubit_evolution_def nd g tensordot1_X [OF a ax])
    have rp: "has_rank (Suc m) ?p"
      using r by (intro has_rank_moveaxis0) simp
    have t: "take_nd 0 ax ?p = ?a1" "take_nd (Suc 0) ax ?p = ?a0"
      using take_moveaxis0 [OF r(2) r(1) ax] by simp_all
    have "single_qubit_evolution (Array ?p) g ax = Inr a"
      using ax by (simp add: single_qubit_evolution_def has_rank_ndim [OF rp] g
          tensordot1_X [OF rp ax] t whole)
    moreover have "nsq ?p = nsq a"
      using sum by (simp add: nsq_moveaxis0)
    ultimately show ?thesis using p rp n by blast
  next
    assume g: "g = Z_matrix"
    let ?b = "scale_nd (- 1) ?a1"
    let ?p = "moveaxis0 ax (Axis ?a0 ?b)"
    have rb: "has_rank m ?b" using r by (simp add: has_rank_scale)
    have p: "single_qubit_evolution (Array a) g ax = Inr ?p"
      using ax by (simp add: single_qubit_evolution_def nd g tensordot1_Z [OF a ax])
    have rp: "has_rank (Suc m) ?p"
      using r rb by (intro has_rank_moveaxis0) simp
    have t: "take_nd 0 ax ?p = ?a0" "take_nd (Suc 0) ax ?p = ?b"
      using take_moveaxis0 [OF r(1) rb ax] by simp_all
    have "single_qubit_evolution (Array ?p) g ax = Inr a"
      using ax by (simp add: single_qubit_evolution_def has_rank_ndim [OF rp] g
          tensordot1_Z [OF rp ax] t scale_scale scale_one whole)
    moreover have "nsq ?p = nsq a"
      using sum by (simp add: nsq_moveaxis0 nsq_scale)
    ultimately show ?thesis using p rp n by blast
  qed
qed

text \<open>
  The method hands the session object to the module-level function, so it raises IndexError
  for every operator and every index, and with it every odd-parity correction.
\<close>

lemma method_raises: "StateVec_single_qubit_evolution self op index = Inl IndexError"
  by (simp add: StateVec_single_qubit_evolution_def single_qubit_evolution_def)

lemma apply_correction_value:
  assumes "sum_at measurement_results domain = Inr s"
    and "list_index (node_index self) index = Inr i"
  shows "apply_correction self type index domain measurement_results
         = (if s mod 2 = 1 then Inl IndexError else Inr self)"
  using assms by (simp add: apply_correction_def method_raises)

text \<open>
  C7: with an even parity \<open>apply_correction\<close> returns the state unchanged. With an odd parity
  it raises IndexError instead of applying the Pauli matrix: for the state |1> with label
  5 and the outcome record \<open>[1]\<close>, the X correction over the domain \<open>[0]\<close> raises, where the
  module-level function applied to the tensor itself gives |0>.
\<close>

theorem apply_correction_odd_parity_raises:
  "apply_correction \<lparr>psi = Axis (Scalar 0) (Scalar 1), node_index = [5]\<rparr> ''X'' 5 [0] [1]
     = Inl IndexError
   \<and> apply_correction \<lparr>psi = Axis (Scalar 0) (Scalar 1), node_index = [5]\<rparr> ''X'' 5 [0] [0]
     = Inr \<lparr>psi = Axis (Scalar 0) (Scalar 1), node_index = [5]\<rparr>
   \<and> single_qubit_evolution (Array (Axis (Scalar 0) (Scalar 1))) X_matrix 0
     = Inr (Axis (Scalar 1) (Scalar 0))"
  by (simp add: apply_correction_def getitem_def method_raises single_qubit_evolution_def
      tensordot1_def X_matrix_def)

text \<open>
  C10: the kind is not validated (every string other than "X" selects Z), but the
  correction is not applied: for the kind "Y", an odd parity and the live label 5 the call
  raises IndexError, where the module-level function applied to the tensor itself with
  the Z matrix gives -|1>.
\<close>

theorem apply_correction_unknown_kind_raises:
  "apply_correction \<lparr>psi = Axis (Scalar 0) (Scalar 1), node_index = [5]\<rparr> ''Y'' 5 [0] [1]
     = Inl IndexError
   \<and> single_qubit_evolution (Array (Axis (Scalar 0) (Scalar 1))) Z_matrix 0
     = Inr (Axis (Scalar 0) (Scalar (- 1)))"
  by (simp add: apply_correction_def getitem_def method_raises single_qubit_evolution_def
      tensordot1_def Z_matrix_def)

subsection \<open>Operators on two axes\<close>

lemma axis_ok_int [simp]: "axis_ok n (int c) = (c < n)"
  by (simp add: axis_ok_def)

lemma norm_axis_int [simp]: "norm_axis n (int c) = c"
  by (simp add: norm_axis_def)

lemma norm_axis_less: "axis_ok n q \<Longrightarrow> norm_axis n q < n"
  by (auto simp: axis_ok_def norm_axis_def)

lemma has_rank_take2:
  assumes "has_rank (Suc (Suc m)) a" "c \<noteq> t" "c \<le> Suc m" "t \<le> Suc m"
  shows "has_rank m (take2 k c l t a)"
proof (cases "c < t")
  case True
  have "has_rank (Suc m) (take_nd k c a)" using assms by (intro has_rank_take) auto
  then have "has_rank m (take_nd l (t - 1) (take_nd k c a))"
    using True assms by (intro has_rank_take) auto
  with True show ?thesis by (simp add: take2_def)
next
  case False
  have "has_rank (Suc m) (take_nd l t a)" using assms by (intro has_rank_take) auto
  then have "has_rank m (take_nd k (c - 1) (take_nd l t a))"
    using False assms by (intro has_rank_take) auto
  with False show ?thesis by (simp add: take2_def)
qed

lemma has_rank_place2:
  assumes "has_rank m r00" "has_rank m r01" "has_rank m r10" "has_rank m r11"
  shows "has_rank (Suc (Suc m)) (place2 c t r00 r01 r10 r11)"
  using assms by (auto simp: place2_def intro!: has_rank_moveaxis0)

lemma nsq_place2: "nsq (place2 c t r00 r01 r10 r11) = nsq r00 + nsq r01 + nsq r10 + nsq r11"
  by (simp add: place2_def nsq_moveaxis0)

lemma take2_place2:
  assumes r: "has_rank m r00" "has_rank m r01" "has_rank m r10" "has_rank m r11"
    and ct: "c \<noteq> t" "c \<le> Suc m" "t \<le> Suc m"
  shows "take2 k c l t (place2 c t r00 r01 r10 r11)
         = (if k = 0 then (if l = 0 then r00 else r01) else (if l = 0 then r10 else r11))"
proof (cases "c < t")
  case True
  then have t1: "t - 1 \<le> m" using ct by auto
  have A: "has_rank (Suc m) (moveaxis0 (t - 1) (Axis r00 r01))"
    and B: "has_rank (Suc m) (moveaxis0 (t - 1) (Axis r10 r11))"
    using r by (auto intro!: has_rank_moveaxis0)
  show ?thesis
    using True take_moveaxis0 [OF A B ct(2)] take_moveaxis0 [OF r(1,2) t1] take_moveaxis0 [OF r(3,4) t1]
    by (simp add: take2_def place2_def)
next
  case False
  then have c1: "c - 1 \<le> m" and tc: "t < c" using ct by auto
  have A: "has_rank (Suc m) (moveaxis0 (c - 1) (Axis r00 r10))"
    and B: "has_rank (Suc m) (moveaxis0 (c - 1) (Axis r01 r11))"
    using r by (auto intro!: has_rank_moveaxis0)
  show ?thesis
    using False take_moveaxis0 [OF A B ct(3)] take_moveaxis0 [OF r(1,3) c1] take_moveaxis0 [OF r(2,4) c1]
    by (simp add: take2_def place2_def)
qed

lemma place2_take2:
  assumes a: "has_rank (Suc (Suc m)) a" and ct: "c \<noteq> t" "c \<le> Suc m" "t \<le> Suc m"
  shows "place2 c t (take2 0 c 0 t a) (take2 0 c (Suc 0) t a)
                    (take2 (Suc 0) c 0 t a) (take2 (Suc 0) c (Suc 0) t a) = a"
proof (cases "c < t")
  case True
  then have t1: "t - 1 \<le> m" using ct by auto
  have A: "has_rank (Suc m) (take_nd k c a)" for k
    using a ct by (intro has_rank_take) auto
  show ?thesis
    using True moveaxis0_take [OF A t1] moveaxis0_take [OF a ct(2)]
    by (simp add: take2_def place2_def)
next
  case False
  then have c1: "c - 1 \<le> m" using ct by auto
  have A: "has_rank (Suc m) (take_nd l t a)" for l
    using a ct by (intro has_rank_take) auto
  show ?thesis
    using False moveaxis0_take [OF A c1] moveaxis0_take [OF a ct(3)]
    by (simp add: take2_def place2_def)
qed

lemma nsq_take2:
  assumes a: "has_rank (Suc (Suc m)) a" and ct: "c \<noteq> t" "c \<le> Suc m" "t \<le> Suc m"
  shows "nsq (take2 0 c 0 t a) + nsq (take2 0 c (Suc 0) t a)
         + nsq (take2 (Suc 0) c 0 t a) + nsq (take2 (Suc 0) c (Suc 0) t a) = nsq a"
  using nsq_place2 [of c t "take2 0 c 0 t a" "take2 0 c (Suc 0) t a"
      "take2 (Suc 0) c 0 t a" "take2 (Suc 0) c (Suc 0) t a"] place2_take2 [OF a ct]
  by simp

text \<open>The two library calls of \<open>entangle\<close> and \<open>swap\<close>, taken together.\<close>

lemma two_axis_operator:
  assumes a: "has_rank n a" and ok: "axis_ok n q0" "axis_ok n q1"
    and ne: "norm_axis n q0 \<noteq> norm_axis n q1"
  shows "\<exists>r. tensordot2 T a (q0, q1) = Inr r \<and>
           moveaxis01 r (q0, q1) =
             Inr (place2 (norm_axis n q0) (norm_axis n q1)
                    (contract2 T a (norm_axis n q0) (norm_axis n q1) 0 0)
                    (contract2 T a (norm_axis n q0) (norm_axis n q1) 0 1)
                    (contract2 T a (norm_axis n q0) (norm_axis n q1) 1 0)
                    (contract2 T a (norm_axis n q0) (norm_axis n q1) 1 1))"
proof -
  have nd: "ndim a = n" using a by (rule has_rank_ndim)
  let ?c = "norm_axis n q0" and ?t = "norm_axis n q1"
  let ?r = "Axis (Axis (contract2 T a ?c ?t 0 0) (contract2 T a ?c ?t 0 1))
                 (Axis (contract2 T a ?c ?t 1 0) (contract2 T a ?c ?t 1 1))"
  have lt: "?c < n" "?t < n" using ok by (auto intro: norm_axis_less)
  with ne obtain m where n: "n = Suc (Suc m)" by (cases n; cases "n - 1") auto
  have td: "tensordot2 T a (q0, q1) = Inr ?r"
    using ok ne by (simp add: tensordot2_def nd Let_def)
  have r: "has_rank m (contract2 T a ?c ?t i j)" for i j
    unfolding contract2_def using a lt ne n
    by (intro has_rank_add) (simp_all add: has_rank_scale has_rank_take2)
  have ndr: "ndim ?r = n"
    using r [of 0 0] by (simp add: n has_rank_ndim)
  have "moveaxis01 ?r (q0, q1) = Inr (place2 ?c ?t (contract2 T a ?c ?t 0 0)
          (contract2 T a ?c ?t 0 1) (contract2 T a ?c ?t 1 0) (contract2 T a ?c ?t 1 1))"
    unfolding moveaxis01_def ndr using ok ne by (simp add: place2_def Let_def)
  with td show ?thesis by blast
qed

subsection \<open>CZ and SWAP\<close>

lemma has_rank_full: "has_rank m (full m z)"
  by (induction m) auto

lemma scale0_full: "has_rank m x \<Longrightarrow> scale_nd 0 x = full m 0"
  by (induction m x rule: has_rank.induct) auto

lemma add_full0_left: "has_rank m y \<Longrightarrow> add_nd (full m 0) y = y"
  by (induction m y rule: has_rank.induct) auto

lemma add_full0_right: "has_rank m y \<Longrightarrow> add_nd y (full m 0) = y"
  by (induction m y rule: has_rank.induct) auto

text \<open>A sum of four scaled arrays in which all coefficients but one are zero.\<close>

lemma select4:
  assumes "has_rank m x0" "has_rank m x1" "has_rank m x2" "has_rank m x3"
  shows "add_nd (add_nd (scale_nd c x0) (scale_nd 0 x1)) (add_nd (scale_nd 0 x2) (scale_nd 0 x3))
           = scale_nd c x0"
    and "add_nd (add_nd (scale_nd 0 x0) (scale_nd c x1)) (add_nd (scale_nd 0 x2) (scale_nd 0 x3))
           = scale_nd c x1"
    and "add_nd (add_nd (scale_nd 0 x0) (scale_nd 0 x1)) (add_nd (scale_nd c x2) (scale_nd 0 x3))
           = scale_nd c x2"
    and "add_nd (add_nd (scale_nd 0 x0) (scale_nd 0 x1)) (add_nd (scale_nd 0 x2) (scale_nd c x3))
           = scale_nd c x3"
  using assms
  by (simp_all add: scale0_full [of m] add_full0_left add_full0_right has_rank_scale has_rank_full)

lemma contract2_CZ:
  assumes a: "has_rank (Suc (Suc m)) a" and ct: "c \<noteq> t" "c \<le> Suc m" "t \<le> Suc m"
  shows "contract2 CZ_TENSOR a c t 0 0 = take2 0 c 0 t a"
    and "contract2 CZ_TENSOR a c t 0 (Suc 0) = take2 0 c (Suc 0) t a"
    and "contract2 CZ_TENSOR a c t (Suc 0) 0 = take2 (Suc 0) c 0 t a"
    and "contract2 CZ_TENSOR a c t (Suc 0) (Suc 0) = scale_nd (- 1) (take2 (Suc 0) c (Suc 0) t a)"
proof -
  have r: "has_rank m (take2 k c l t a)" for k l
    using a ct by (rule has_rank_take2)
  note sel = select4 [OF r [of 0 0] r [of 0 "Suc 0"] r [of "Suc 0" 0] r [of "Suc 0" "Suc 0"]]
  note sel1 = sel [of 1, unfolded scale_one]
  show "contract2 CZ_TENSOR a c t 0 0 = take2 0 c 0 t a"
    by (simp add: contract2_def CZ_TENSOR_def sel sel1 scale_one)
  show "contract2 CZ_TENSOR a c t 0 (Suc 0) = take2 0 c (Suc 0) t a"
    by (simp add: contract2_def CZ_TENSOR_def sel sel1 scale_one)
  show "contract2 CZ_TENSOR a c t (Suc 0) 0 = take2 (Suc 0) c 0 t a"
    by (simp add: contract2_def CZ_TENSOR_def sel sel1 scale_one)
  show "contract2 CZ_TENSOR a c t (Suc 0) (Suc 0) = scale_nd (- 1) (take2 (Suc 0) c (Suc 0) t a)"
    by (simp add: contract2_def CZ_TENSOR_def sel)
qed

lemma contract2_SWAP:
  assumes a: "has_rank (Suc (Suc m)) a" and ct: "c \<noteq> t" "c \<le> Suc m" "t \<le> Suc m"
  shows "contract2 SWAP_TENSOR a c t 0 0 = take2 0 c 0 t a"
    and "contract2 SWAP_TENSOR a c t 0 (Suc 0) = take2 (Suc 0) c 0 t a"
    and "contract2 SWAP_TENSOR a c t (Suc 0) 0 = take2 0 c (Suc 0) t a"
    and "contract2 SWAP_TENSOR a c t (Suc 0) (Suc 0) = take2 (Suc 0) c (Suc 0) t a"
proof -
  have r: "has_rank m (take2 k c l t a)" for k l
    using a ct by (rule has_rank_take2)
  note sel = select4 [OF r [of 0 0] r [of 0 "Suc 0"] r [of "Suc 0" 0] r [of "Suc 0" "Suc 0"]]
  note sel1 = sel [of 1, unfolded scale_one]
  show "contract2 SWAP_TENSOR a c t 0 0 = take2 0 c 0 t a"
    by (simp add: contract2_def SWAP_TENSOR_def sel sel1 scale_one)
  show "contract2 SWAP_TENSOR a c t 0 (Suc 0) = take2 (Suc 0) c 0 t a"
    by (simp add: contract2_def SWAP_TENSOR_def sel sel1 scale_one)
  show "contract2 SWAP_TENSOR a c t (Suc 0) 0 = take2 0 c (Suc 0) t a"
    by (simp add: contract2_def SWAP_TENSOR_def sel sel1 scale_one)
  show "contract2 SWAP_TENSOR a c t (Suc 0) (Suc 0) = take2 (Suc 0) c (Suc 0) t a"
    by (simp add: contract2_def SWAP_TENSOR_def sel sel1 scale_one)
qed

lemma cz_on_props:
  assumes a: "has_rank n a" and ct: "c \<noteq> t" "c < n" "t < n"
  shows "has_rank n (cz_on c t a)" and "nsq (cz_on c t a) = nsq a" and "cz_on c t (cz_on c t a) = a"
proof -
  from ct obtain m where n: "n = Suc (Suc m)" by (cases n; cases "n - 1") auto
  have a': "has_rank (Suc (Suc m)) a" using a n by simp
  have ct': "c \<noteq> t" "c \<le> Suc m" "t \<le> Suc m" using ct n by auto
  have r: "has_rank m (take2 k c l t a)" for k l
    using a' ct' by (rule has_rank_take2)
  have rs: "has_rank m (scale_nd (- 1) (take2 (Suc 0) c (Suc 0) t a))"
    using r by (simp add: has_rank_scale)
  show "has_rank n (cz_on c t a)"
    unfolding cz_on_def n by (intro has_rank_place2 r rs)
  show "nsq (cz_on c t a) = nsq a"
    using nsq_take2 [OF a' ct'] by (simp add: cz_on_def nsq_place2 nsq_scale)
  have t2: "take2 k c l t (cz_on c t a)
      = (if k = 0 then (if l = 0 then take2 0 c 0 t a else take2 0 c (Suc 0) t a)
         else (if l = 0 then take2 (Suc 0) c 0 t a
               else scale_nd (- 1) (take2 (Suc 0) c (Suc 0) t a)))" for k l
    unfolding cz_on_def by (rule take2_place2 [OF r r r rs ct'])
  show "cz_on c t (cz_on c t a) = a"
    using place2_take2 [OF a' ct']
    by (simp add: cz_on_def [of c t "cz_on c t a"] t2 scale_scale scale_one)
qed

lemma swap_on_props:
  assumes a: "has_rank n a" and ct: "c \<noteq> t" "c < n" "t < n"
  shows "has_rank n (swap_on c t a)" and "nsq (swap_on c t a) = nsq a"
    and "swap_on c t (swap_on c t a) = a"
proof -
  from ct obtain m where n: "n = Suc (Suc m)" by (cases n; cases "n - 1") auto
  have a': "has_rank (Suc (Suc m)) a" using a n by simp
  have ct': "c \<noteq> t" "c \<le> Suc m" "t \<le> Suc m" using ct n by auto
  have r: "has_rank m (take2 k c l t a)" for k l
    using a' ct' by (rule has_rank_take2)
  show "has_rank n (swap_on c t a)"
    unfolding swap_on_def n by (intro has_rank_place2 r)
  show "nsq (swap_on c t a) = nsq a"
    using nsq_take2 [OF a' ct'] by (simp add: swap_on_def nsq_place2)
  have t2: "take2 k c l t (swap_on c t a)
      = (if k = 0 then (if l = 0 then take2 0 c 0 t a else take2 (Suc 0) c 0 t a)
         else (if l = 0 then take2 0 c (Suc 0) t a else take2 (Suc 0) c (Suc 0) t a))" for k l
    unfolding swap_on_def by (rule take2_place2 [OF r r r r ct'])
  show "swap_on c t (swap_on c t a) = a"
    using place2_take2 [OF a' ct']
    by (simp add: swap_on_def [of c t "swap_on c t a"] t2)
qed

lemma tensordot_moveaxis_CZ:
  assumes a: "has_rank n a" and ok: "axis_ok n q0" "axis_ok n q1"
    and ne: "norm_axis n q0 \<noteq> norm_axis n q1"
  shows "\<exists>r. tensordot2 CZ_TENSOR a (q0, q1) = Inr r
           \<and> moveaxis01 r (q0, q1) = Inr (cz_on (norm_axis n q0) (norm_axis n q1) a)"
proof -
  have lt: "norm_axis n q0 < n" "norm_axis n q1 < n" using ok by (auto intro: norm_axis_less)
  with ne obtain m where n: "n = Suc (Suc m)" by (cases n; cases "n - 1") auto
  have a': "has_rank (Suc (Suc m)) a" using a n by simp
  have ct': "norm_axis n q0 \<le> Suc m" "norm_axis n q1 \<le> Suc m" using lt n by auto
  from two_axis_operator [OF a ok ne, of CZ_TENSOR] show ?thesis
    by (simp add: contract2_CZ [OF a' ne ct'] cz_on_def)
qed

lemma tensordot_moveaxis_SWAP:
  assumes a: "has_rank n a" and ok: "axis_ok n q0" "axis_ok n q1"
    and ne: "norm_axis n q0 \<noteq> norm_axis n q1"
  shows "\<exists>r. tensordot2 SWAP_TENSOR a (q0, q1) = Inr r
           \<and> moveaxis01 r (q0, q1) = Inr (swap_on (norm_axis n q0) (norm_axis n q1) a)"
proof -
  have lt: "norm_axis n q0 < n" "norm_axis n q1 < n" using ok by (auto intro: norm_axis_less)
  with ne obtain m where n: "n = Suc (Suc m)" by (cases n; cases "n - 1") auto
  have a': "has_rank (Suc (Suc m)) a" using a n by simp
  have ct': "norm_axis n q0 \<le> Suc m" "norm_axis n q1 \<le> Suc m" using lt n by auto
  from two_axis_operator [OF a ok ne, of SWAP_TENSOR] show ?thesis
    by (simp add: contract2_SWAP [OF a' ne ct'] swap_on_def)
qed

lemma list_index_distinct:
  "list_index xs a = Inr i \<Longrightarrow> list_index xs b = Inr j \<Longrightarrow> a \<noteq> b \<Longrightarrow> i \<noteq> j"
  by (induction xs arbitrary: i j) (auto split: if_splits sum.splits)

lemma entangle_live:
  assumes "wf self" and "list_index (node_index self) control = Inr c"
    and "list_index (node_index self) target = Inr t" and "c \<noteq> t"
    and "c < length (node_index self)" "t < length (node_index self)"
  shows "entangle self control target = Inr (self\<lparr>psi := cz_on c t (psi self)\<rparr>)"
proof -
  let ?n = "length (node_index self)"
  have a: "has_rank ?n (psi self)" using assms(1) by (simp add: wf_def)
  from tensordot_moveaxis_CZ [OF a, of "int c" "int t"] assms(4,5,6)
  obtain r where "tensordot2 CZ_TENSOR (psi self) (int c, int t) = Inr r"
    "moveaxis01 r (int c, int t) = Inr (cz_on c t (psi self))"
    by auto
  with assms(2,3) show ?thesis by (simp add: entangle_def)
qed

subsection \<open>Entangling two qubits\<close>

text \<open>
  C8: for a well-formed state and two live labels \<open>a\<close>, \<open>b\<close>, \<open>entangle\<close> succeeds when the labels
  differ, keeps the label list, leaves the norm of the tensor as it was, and a second
  \<open>entangle\<close> of the same labels returns the state before the first (CZ is its own inverse).
  With \<open>a = b\<close> the library call raises ValueError before \<open>psi\<close> is assigned, so the tensor
  keeps its value in that case as well.
\<close>

theorem entangle_unitary_involution:
  assumes "wf self" and "a \<in> set (node_index self)" and "b \<in> set (node_index self)"
  shows "if a = b then entangle self a b = Inl ValueError
         else \<exists>self1. entangle self a b = Inr self1
                \<and> wf self1 \<and> node_index self1 = node_index self
                \<and> norm_nd (psi self1) = norm_nd (psi self)
                \<and> entangle self1 a b = Inr self"
proof -
  let ?n = "length (node_index self)"
  from list_index_live [OF assms(2)] obtain c where
    c: "list_index (node_index self) a = Inr c" "c < ?n" by blast
  from list_index_live [OF assms(3)] obtain t where
    t: "list_index (node_index self) b = Inr t" "t < ?n" by blast
  have rk: "has_rank ?n (psi self)" using assms(1) by (simp add: wf_def)
  show ?thesis
  proof (cases "a = b")
    case True
    with c t have "t = c" by simp
    with c t True show ?thesis
      by (simp add: entangle_def tensordot2_def has_rank_ndim [OF rk])
  next
    case False
    with c t have ne: "c \<noteq> t" by (auto dest: list_index_distinct)
    let ?s1 = "self\<lparr>psi := cz_on c t (psi self)\<rparr>"
    have e1: "entangle self a b = Inr ?s1"
      using assms(1) c(1) t(1) ne c(2) t(2) by (rule entangle_live)
    have wf1: "wf ?s1"
      using cz_on_props(1) [OF rk ne c(2) t(2)] by (simp add: wf_def)
    have "entangle ?s1 a b = Inr (?s1\<lparr>psi := cz_on c t (psi ?s1)\<rparr>)"
      using wf1 c t ne by (intro entangle_live) simp_all
    then have e2: "entangle ?s1 a b = Inr self"
      using cz_on_props(3) [OF rk ne c(2) t(2)] by simp
    have "norm_nd (psi ?s1) = norm_nd (psi self)"
      using cz_on_props(2) [OF rk ne c(2) t(2)] by (simp add: norm_nd_nsq)
    with e1 e2 wf1 False show ?thesis by auto
  qed
qed

lemma entangle_example:
  "entangle \<lparr>psi = Axis (Axis (Scalar 1) (Scalar 2)) (Axis (Scalar 3) (Scalar 4)), node_index = [6, 7]\<rparr> 6 7
     = Inr \<lparr>psi = Axis (Axis (Scalar 1) (Scalar 2)) (Axis (Scalar 3) (Scalar (- 4))), node_index = [6, 7]\<rparr>"
  by (simp add: entangle_def tensordot2_def moveaxis01_def contract2_def take2_def CZ_TENSOR_def
      axis_ok_def norm_axis_def)

theorem entangle_unitary_involution_witness:
  "entangle \<lparr>psi = Axis (Axis (Scalar 1) (Scalar 2)) (Axis (Scalar 3) (Scalar (- 4))), node_index = [6, 7]\<rparr> 6 7
     = Inr \<lparr>psi = Axis (Axis (Scalar 1) (Scalar 2)) (Axis (Scalar 3) (Scalar 4)), node_index = [6, 7]\<rparr>"
proof -
  let ?s = "\<lparr>psi = Axis (Axis (Scalar 1) (Scalar 2)) (Axis (Scalar 3) (Scalar 4)), node_index = [6, 7]\<rparr>"
  have h1: "wf ?s" by (simp add: wf_def)
  have h2: "6 \<in> set (node_index ?s)" by simp
  have h3: "7 \<in> set (node_index ?s)" by simp
  from entangle_unitary_involution [OF h1 h2 h3]
  obtain self1 where "entangle ?s 6 7 = Inr self1" "entangle self1 6 7 = Inr ?s"
    by auto
  then show ?thesis by (simp add: entangle_example)
qed

subsection \<open>Preparing a qubit\<close>

lemma length_flatten: "has_rank n a \<Longrightarrow> length (flatten a) = 2 ^ n"
  by (induction n a rule: has_rank.induct) auto

lemma length_kron: "length (kron u v) = length u * length v"
  by (induction u) (auto simp: kron_def)

lemma has_rank_reshape: "length w = 2 ^ k \<Longrightarrow> has_rank k (reshape k w)"
  by (induction k arbitrary: w) auto

lemma nsq_reshape: "length w = 2 ^ k \<Longrightarrow> nsq (reshape k w) = (\<Sum>x\<leftarrow>w. (cmod x)\<^sup>2)"
proof (induction k arbitrary: w)
  case 0
  then obtain x where "w = [x]" by (cases w) auto
  then show ?case by simp
next
  case (Suc k)
  have "(\<Sum>x\<leftarrow>w. (cmod x)\<^sup>2) = (\<Sum>x\<leftarrow>take (2 ^ k) w @ drop (2 ^ k) w. (cmod x)\<^sup>2)"
    by simp
  also have "\<dots> = (\<Sum>x\<leftarrow>take (2 ^ k) w. (cmod x)\<^sup>2) + (\<Sum>x\<leftarrow>drop (2 ^ k) w. (cmod x)\<^sup>2)"
    by (simp only: map_append sum_list_append)
  finally show ?case using Suc by simp
qed

lemma flatten_reshape: "length w = 2 ^ k \<Longrightarrow> flatten (reshape k w) = w"
proof (induction k arbitrary: w)
  case 0
  then obtain x where "w = [x]" by (cases w) auto
  then show ?case by simp
next
  case (Suc k)
  then show ?case by simp
qed

lemma sum_kron:
  "(\<Sum>x\<leftarrow>kron u v. (cmod x)\<^sup>2) = (\<Sum>x\<leftarrow>u. (cmod x)\<^sup>2) * (\<Sum>y\<leftarrow>v. (cmod y)\<^sup>2)"
proof (induction u)
  case Nil
  then show ?case by (simp add: kron_def)
next
  case (Cons x u)
  have "(\<Sum>y\<leftarrow>v. (cmod (x * y))\<^sup>2) = (cmod x)\<^sup>2 * (\<Sum>y\<leftarrow>v. (cmod y)\<^sup>2)"
    by (induction v) (auto simp: norm_mult power_mult_distrib algebra_simps)
  with Cons show ?case
    by (simp add: kron_def comp_def algebra_simps)
qed

lemma nsq_plus: "nsq plus = 1"
  by (simp add: plus_def norm_divide power_divide)

lemma has_rank_plus: "has_rank (Suc 0) plus"
  by (simp add: plus_def)

text \<open>What \<open>prepare_state\<close> does to a well-formed session.\<close>

lemma prepare_state_props:
  assumes "wf self"
  shows "wf (prepare_state self target)"
    and "node_index (prepare_state self target) = node_index self @ [target]"
    and "nsq (psi (prepare_state self target)) = nsq (psi self)"
    and "flatten (psi (prepare_state self target)) = kron (flatten (psi self)) (flatten plus)"
proof -
  let ?n = "length (node_index self)"
  have rk: "has_rank ?n (psi self)" using assms by (simp add: wf_def)
  let ?w = "kron (flatten (psi self)) (flatten plus)"
  have len: "length ?w = 2 ^ (Suc ?n)"
    by (simp add: length_kron length_flatten [OF rk] length_flatten [OF has_rank_plus])
  have p: "psi (prepare_state self target) = reshape (Suc ?n) ?w"
    by (simp add: prepare_state_def tensor_def Let_def has_rank_ndim [OF rk]
        has_rank_ndim [OF has_rank_plus])
  show ni: "node_index (prepare_state self target) = node_index self @ [target]"
    by (simp add: prepare_state_def tensor_def Let_def)
  show "wf (prepare_state self target)"
    using has_rank_reshape [OF len] unfolding wf_def ni p by simp
  show "nsq (psi (prepare_state self target)) = nsq (psi self)"
    unfolding p nsq_reshape [OF len] sum_kron sum_flatten_nsq nsq_plus by simp
  show "flatten (psi (prepare_state self target)) = ?w"
    unfolding p by (rule flatten_reshape [OF len])
qed

text \<open>
  C3 (as the code has it): \<open>prepare_state\<close> makes no check. For every well-formed state and every
  label, live or not, the call returns: the tensor has one more axis, its flat vector is
  the Kronecker product of the old one with the |+> state, its norm is the old norm, and
  the label is appended to \<open>node_index\<close>.
\<close>

theorem prepare_state_unchecked:
  assumes "wf self"
  shows "wf (prepare_state self target)
       \<and> node_index (prepare_state self target) = node_index self @ [target]
       \<and> ndim (psi (prepare_state self target)) = Suc (ndim (psi self))
       \<and> flatten (psi (prepare_state self target)) = kron (flatten (psi self)) (flatten plus)
       \<and> norm_nd (psi (prepare_state self target)) = norm_nd (psi self)"
proof -
  note p = prepare_state_props [OF assms, of target]
  have "ndim (psi (prepare_state self target)) = Suc (length (node_index self))"
    using p(1) by (simp add: wf_def p(2) has_rank_ndim)
  moreover have "ndim (psi self) = length (node_index self)"
    using assms by (simp add: wf_def has_rank_ndim)
  ultimately show ?thesis using p by (simp add: norm_nd_nsq)
qed

lemma prepare_state_example:
  "prepare_state \<lparr>psi = Axis (Scalar 1) (Scalar 0), node_index = [0]\<rparr> 0
     = \<lparr>psi = Axis (Axis (Scalar (complex_of_real (1 / sqrt 2))) (Scalar (complex_of_real (1 / sqrt 2))))
                  (Axis (Scalar 0) (Scalar 0)),
        node_index = [0, 0]\<rparr>"
  by (simp add: prepare_state_def tensor_def plus_def kron_def)

theorem prepare_state_unchecked_witness:
  "wf \<lparr>psi = Axis (Scalar 1) (Scalar 0), node_index = [0]\<rparr>
   \<and> node_index (prepare_state \<lparr>psi = Axis (Scalar 1) (Scalar 0), node_index = [0]\<rparr> 7) = [0, 7]"
proof -
  have h: "wf \<lparr>psi = Axis (Scalar 1) (Scalar 0), node_index = [0]\<rparr>" by (simp add: wf_def)
  from prepare_state_unchecked [OF h, of 7] h show ?thesis by simp
qed

text \<open>
  The claim as stated fails: label 0 is live, and preparing it again returns a state with a
  second axis and the label listed twice.
\<close>

theorem prepare_state_duplicate_counterexample:
  "0 \<in> set (node_index \<lparr>psi = Axis (Scalar 1) (Scalar 0), node_index = [0]\<rparr>)
   \<and> prepare_state \<lparr>psi = Axis (Scalar 1) (Scalar 0), node_index = [0]\<rparr> 0
     = \<lparr>psi = Axis (Axis (Scalar (complex_of_real (1 / sqrt 2))) (Scalar (complex_of_real (1 / sqrt 2))))
                  (Axis (Scalar 0) (Scalar 0)),
        node_index = [0, 0]\<rparr>"
  by (simp add: prepare_state_example)

subsection \<open>The norm along a sequence of calls\<close>

lemma list_index_Inr: "list_index xs v = Inr i \<Longrightarrow> i < length xs \<and> xs ! i = v"
  by (induction xs arbitrary: i) (auto split: if_splits sum.splits)

lemma tensordot2_Inr:
  assumes "tensordot2 T a q = Inr r"
  shows "axis_ok (ndim a) (fst q)" and "axis_ok (ndim a) (snd q)"
    and "norm_axis (ndim a) (fst q) \<noteq> norm_axis (ndim a) (snd q)"
  using assms by (auto simp: tensordot2_def Let_def split: if_splits)

lemma swap_Inr:
  assumes "wf self" and "swap self q = Inr self1"
  shows "wf self1 \<and> nsq (psi self1) = nsq (psi self) \<and> node_index self1 = node_index self"
proof -
  let ?n = "length (node_index self)"
  have rk: "has_rank ?n (psi self)" using assms(1) by (simp add: wf_def)
  have nd: "ndim (psi self) = ?n" using rk by (rule has_rank_ndim)
  obtain q0 q1 where q: "q = (q0, q1)" by (cases q)
  from assms(2) obtain r where r: "tensordot2 SWAP_TENSOR (psi self) q = Inr r"
    by (auto simp: swap_def split: sum.splits)
  note ok = tensordot2_Inr [OF r, unfolded nd q fst_conv snd_conv]
  from tensordot_moveaxis_SWAP [OF rk ok] r q assms(2)
  have s1: "self1 = self\<lparr>psi := swap_on (norm_axis ?n q0) (norm_axis ?n q1) (psi self)\<rparr>"
    by (auto simp: swap_def)
  have lt: "norm_axis ?n q0 < ?n" "norm_axis ?n q1 < ?n"
    using ok by (auto intro: norm_axis_less)
  from swap_on_props(1,2) [OF rk ok(3) lt] show ?thesis
    by (simp add: s1 wf_def)
qed

lemma entangle_Inr:
  assumes "wf self" and "entangle self a b = Inr self1"
  shows "wf self1 \<and> nsq (psi self1) = nsq (psi self) \<and> node_index self1 = node_index self"
proof -
  let ?n = "length (node_index self)"
  have rk: "has_rank ?n (psi self)" using assms(1) by (simp add: wf_def)
  have nd: "ndim (psi self) = ?n" using rk by (rule has_rank_ndim)
  from assms(2) obtain c t r where
    c: "list_index (node_index self) a = Inr c" and t: "list_index (node_index self) b = Inr t"
    and r: "tensordot2 CZ_TENSOR (psi self) (int c, int t) = Inr r"
    by (auto simp: entangle_def split: sum.splits)
  have lt: "c < ?n" "t < ?n" using c t by (auto dest: list_index_Inr)
  have ne: "c \<noteq> t" using tensordot2_Inr(3) [OF r] by simp
  from entangle_live [OF assms(1) c t ne lt] assms(2)
  have s1: "self1 = self\<lparr>psi := cz_on c t (psi self)\<rparr>" by simp
  from cz_on_props(1,2) [OF rk ne lt] show ?thesis
    by (simp add: s1 wf_def)
qed

lemma apply_correction_Inr:
  assumes "apply_correction self type index domain mr = Inr self1"
  shows "self1 = self"
  using assms
  by (auto simp: apply_correction_def method_raises Let_def split: sum.splits if_splits)

text \<open>
  On a well-formed session the object after a call is the value the call returns, and the
  object before the call when it raises: \<open>moveaxis\<close>, the one statement that follows an
  assignment, does not raise where \<open>tensordot\<close> has returned.
\<close>

lemma entangle_in_place_wf:
  assumes "wf self"
  shows "entangle_in_place self a b
         = (case entangle self a b of Inl e \<Rightarrow> (Some e, self) | Inr self1 \<Rightarrow> (None, self1))"
proof (cases "list_index (node_index self) a")
  case (Inl e)
  then show ?thesis by (simp add: entangle_in_place_def entangle_def)
next
  case c: (Inr c)
  show ?thesis
  proof (cases "list_index (node_index self) b")
    case (Inl e)
    with c show ?thesis by (simp add: entangle_in_place_def entangle_def)
  next
    case t: (Inr t)
    show ?thesis
    proof (cases "tensordot2 CZ_TENSOR (psi self) (int c, int t)")
      case (Inl e)
      with c t show ?thesis by (simp add: entangle_in_place_def entangle_def)
    next
      case (Inr r)
      let ?n = "length (node_index self)"
      have lt: "c < ?n" "t < ?n" using c t by (auto dest: list_index_Inr)
      have ne: "c \<noteq> t" using tensordot2_Inr(3) [OF Inr] by simp
      have rk: "has_rank ?n (psi self)" using assms by (simp add: wf_def)
      from tensordot_moveaxis_CZ [OF rk, of "int c" "int t"] ne lt Inr
      have "moveaxis01 r (int c, int t) = Inr (cz_on c t (psi self))"
        by auto
      with c t Inr show ?thesis by (simp add: entangle_in_place_def entangle_def)
    qed
  qed
qed

lemma swap_in_place_wf:
  assumes "wf self"
  shows "swap_in_place self q
         = (case swap self q of Inl e \<Rightarrow> (Some e, self) | Inr self1 \<Rightarrow> (None, self1))"
proof (cases "tensordot2 SWAP_TENSOR (psi self) q")
  case (Inl e)
  then show ?thesis by (simp add: swap_in_place_def swap_def)
next
  case (Inr r)
  let ?n = "length (node_index self)"
  have rk: "has_rank ?n (psi self)" using assms by (simp add: wf_def)
  have nd: "ndim (psi self) = ?n" using rk by (rule has_rank_ndim)
  obtain q0 q1 where q: "q = (q0, q1)" by (cases q)
  note ok = tensordot2_Inr [OF Inr, unfolded nd q fst_conv snd_conv]
  from tensordot_moveaxis_SWAP [OF rk ok] Inr q
  have "moveaxis01 r q = Inr (swap_on (norm_axis ?n q0) (norm_axis ?n q1) (psi self))"
    by auto
  with Inr show ?thesis by (simp add: swap_in_place_def swap_def)
qed

lemma apply_correction_in_place_value:
  "apply_correction_in_place self type index domain mr
   = (case apply_correction self type index domain mr of
        Inl e \<Rightarrow> (Some e, self) | Inr self1 \<Rightarrow> (None, self1))"
  by (simp add: apply_correction_in_place_def apply_correction_def method_raises
      split: sum.splits)

text \<open>
  One call, whether it returns or raises, leaves a well-formed session with the same sum of
  squared magnitudes.
\<close>

lemma perform_invariant:
  assumes "wf self"
  shows "wf (snd (perform c self)) \<and> nsq (psi (snd (perform c self))) = nsq (psi self)"
proof (cases c)
  case (Prepare target)
  with prepare_state_props(1,3) [OF assms, of target] show ?thesis by simp
next
  case (Entangle a b)
  show ?thesis
  proof (cases "entangle self a b")
    case (Inl e)
    with Entangle assms show ?thesis by (simp add: entangle_in_place_wf)
  next
    case (Inr self1)
    with Entangle assms entangle_Inr [OF assms Inr] show ?thesis
      by (simp add: entangle_in_place_wf)
  qed
next
  case (Swap q)
  show ?thesis
  proof (cases "swap self q")
    case (Inl e)
    with Swap assms show ?thesis by (simp add: swap_in_place_wf)
  next
    case (Inr self1)
    with Swap assms swap_Inr [OF assms Inr] show ?thesis
      by (simp add: swap_in_place_wf)
  qed
next
  case (Correct type index domain mr)
  show ?thesis
  proof (cases "apply_correction self type index domain mr")
    case (Inl e)
    with Correct assms show ?thesis by (simp add: apply_correction_in_place_value)
  next
    case (Inr self1)
    with Correct assms apply_correction_Inr [OF Inr] show ?thesis
      by (simp add: apply_correction_in_place_value)
  qed
qed

lemma sessions_after_invariant:
  assumes "wf self"
  shows "\<forall>s \<in> set (sessions_after cs self). wf s \<and> nsq (psi s) = nsq (psi self)"
  using assms
proof (induction cs arbitrary: self)
  case Nil
  then show ?case by simp
next
  case (Cons c cs)
  from perform_invariant [OF Cons.prems, of c]
  have inv: "wf (snd (perform c self))" "nsq (psi (snd (perform c self))) = nsq (psi self)"
    by simp_all
  from Cons.IH [OF inv(1)] inv show ?case by (simp add: Let_def)
qed

lemma length_sessions_after: "length (sessions_after cs self) = length cs"
  by (induction cs arbitrary: self) (simp_all add: Let_def)

lemma sqrt2_sqrt2: "complex_of_real (sqrt 2) * complex_of_real (sqrt 2) = 2"
  by (simp add: of_real_mult [symmetric] del: of_real_mult)

text \<open>
  Two sequences from the empty session. In the first the four kinds of call occur, the
  correction has an odd parity on a live label and raises. In the second \<open>swap\<close> is given two
  live labels that are not axis numbers and raises.
\<close>

lemma sessions_after_example:
  "sessions_after [Prepare 0, Prepare 1, Entangle 0 1, Swap (0, 1), Correct ''X'' 0 [0] [1]]
     (init [])
   = [\<lparr>psi = Axis (Scalar (1 / sqrt 2)) (Scalar (1 / sqrt 2)), node_index = [0]\<rparr>,
      \<lparr>psi = Axis (Axis (Scalar (1 / 2)) (Scalar (1 / 2)))
                  (Axis (Scalar (1 / 2)) (Scalar (1 / 2))), node_index = [0, 1]\<rparr>,
      \<lparr>psi = Axis (Axis (Scalar (1 / 2)) (Scalar (1 / 2)))
                  (Axis (Scalar (1 / 2)) (Scalar (- (1 / 2)))), node_index = [0, 1]\<rparr>,
      \<lparr>psi = Axis (Axis (Scalar (1 / 2)) (Scalar (1 / 2)))
                  (Axis (Scalar (1 / 2)) (Scalar (- (1 / 2)))), node_index = [0, 1]\<rparr>,
      \<lparr>psi = Axis (Axis (Scalar (1 / 2)) (Scalar (1 / 2)))
                  (Axis (Scalar (1 / 2)) (Scalar (- (1 / 2)))), node_index = [0, 1]\<rparr>]"
  by (simp add: init_def prepare_state_def tensor_def plus_def kron_def
        entangle_in_place_def swap_in_place_def tensordot2_def moveaxis01_def contract2_def
        take2_def CZ_TENSOR_def SWAP_TENSOR_def axis_ok_def norm_axis_def
        apply_correction_in_place_def getitem_def method_raises sqrt2_sqrt2 Let_def)

lemma perform_example_raises:
  "fst (perform (Correct ''X'' 0 [0] [1])
          \<lparr>psi = Axis (Axis (Scalar (1 / 2)) (Scalar (1 / 2)))
                      (Axis (Scalar (1 / 2)) (Scalar (- (1 / 2)))), node_index = [0, 1]\<rparr>)
     = Some IndexError
   \<and> perform (Swap (5, 7))
       \<lparr>psi = Axis (Axis (Scalar (1 / 2)) (Scalar (1 / 2)))
                   (Axis (Scalar (1 / 2)) (Scalar (1 / 2))), node_index = [5, 7]\<rparr>
     = (Some IndexError,
        \<lparr>psi = Axis (Axis (Scalar (1 / 2)) (Scalar (1 / 2)))
                    (Axis (Scalar (1 / 2)) (Scalar (1 / 2))), node_index = [5, 7]\<rparr>)"
  by (simp add: apply_correction_in_place_def getitem_def method_raises
        swap_in_place_def tensordot2_def axis_ok_def)

text \<open>
  C6: starting from a well-formed session whose tensor has norm 1, after each call of a
  sequence of \<open>prepare_state\<close>, \<open>entangle\<close>, \<open>swap\<close> and \<open>apply_correction\<close> calls the session is
  well formed and the norm of its tensor is 1. This holds for every sequence and after every
  call of it, whether the call returns or raises (a call that raises has assigned nothing);
  no condition on the labels is needed. Amplitudes are exact, so the norm is exactly 1, which
  is within every epsilon of 1.
\<close>

theorem norm_invariant:
  assumes "wf self" and "norm_nd (psi self) = 1"
  shows "length (sessions_after cs self) = length cs
       \<and> (\<forall>s \<in> set (sessions_after cs self). wf s \<and> norm_nd (psi s) = 1)"
proof -
  from sessions_after_invariant [OF assms(1), of cs] assms(2)
  have "\<forall>s \<in> set (sessions_after cs self). wf s \<and> norm_nd (psi s) = 1"
    by (simp add: norm_nd_nsq)
  then show ?thesis by (simp add: length_sessions_after)
qed

theorem norm_invariant_witness:
  "wf (init []) \<and> norm_nd (psi (init [])) = 1
   \<and> last (sessions_after
             [Prepare 0, Prepare 1, Entangle 0 1, Swap (0, 1), Correct ''X'' 0 [0] [1]] (init []))
       = \<lparr>psi = Axis (Axis (Scalar (1 / 2)) (Scalar (1 / 2)))
                     (Axis (Scalar (1 / 2)) (Scalar (- (1 / 2)))), node_index = [0, 1]\<rparr>
   \<and> norm_nd (Axis (Axis (Scalar (1 / 2)) (Scalar (1 / 2)))
                   (Axis (Scalar (1 / 2)) (Scalar (- (1 / 2))))) = 1"
proof -
  let ?cs = "[Prepare 0, Prepare 1, Entangle 0 1, Swap (0, 1), Correct ''X'' 0 [0] [1]]"
  let ?s = "\<lparr>psi = Axis (Axis (Scalar (1 / 2)) (Scalar (1 / 2)))
                     (Axis (Scalar (1 / 2)) (Scalar (- (1 / 2)))), node_index = [0, 1]\<rparr>"
  have h1: "wf (init [])" by (simp add: wf_def init_def)
  have h2: "norm_nd (psi (init [])) = 1" by (simp add: norm_nd_def init_def)
  have l: "last (sessions_after ?cs (init [])) = ?s"
    unfolding sessions_after_example by simp
  have m: "?s \<in> set (sessions_after ?cs (init []))"
    unfolding sessions_after_example by simp
  from norm_invariant [OF h1 h2, of ?cs] m have "norm_nd (psi ?s) = 1" by blast
  with h1 h2 l show ?thesis by simp
qed

subsection \<open>Removing a measured qubit\<close>

lemma isclose_zero: "isclose x 0 = (\<bar>x\<bar> \<le> 1 / 10 ^ 8)"
  by (simp add: isclose_def)

lemma list_remove_live: "v \<in> set xs \<Longrightarrow> list_remove xs v = Inr (remove1 v xs)"
  by (induction xs) auto

lemma nsq_normalized:
  assumes "0 < nsq a"
  shows "nsq (div_nd a (complex_of_real (norm_nd a))) = 1"
  using assms by (simp add: nsq_div norm_nd_nsq)

lemma kept_slice_nonzero:
  assumes a: "has_rank (Suc n) a" and ax: "index \<le> n" and nz: "\<not> isclose (norm_nd a) 0"
  shows "0 < nsq (kept_slice a index)"
proof (cases "isclose (norm_nd (take_nd 0 index a)) 0")
  case False
  then have "sqrt (nsq (take_nd 0 index a)) \<noteq> 0"
    by (auto simp: isclose_zero norm_nd_nsq)
  then have "nsq (take_nd 0 index a) \<noteq> 0" by auto
  with nsq_nonneg [of "take_nd 0 index a"] False show ?thesis
    by (simp add: kept_slice_def)
next
  case True
  then have le: "\<bar>sqrt (nsq (take_nd 0 index a))\<bar> \<le> 1 / 10 ^ 8"
    unfolding isclose_zero norm_nd_nsq .
  from nz have gt: "\<not> \<bar>sqrt (nsq a)\<bar> \<le> 1 / 10 ^ 8"
    unfolding isclose_zero norm_nd_nsq .
  have "0 \<le> sqrt (nsq a)" using nsq_nonneg [of a] by simp
  with le gt have "sqrt (nsq (take_nd 0 index a)) < sqrt (nsq a)" by linarith
  then have "nsq (take_nd 0 index a) < nsq a" by (simp only: real_sqrt_less_iff)
  with nsq_take [OF a ax] have "0 < nsq (take_nd (Suc 0) index a)" by simp
  with True show ?thesis by (simp add: kept_slice_def)
qed

lemma kept_slice_branch:
  assumes a: "has_rank (Suc n) a" and ax: "index \<le> n" and nz: "\<not> isclose (norm_nd a) 0"
  shows "nsq (take_nd 1 index a) = 0 \<Longrightarrow> kept_slice a index = take_nd 0 index a"
    and "nsq (take_nd 0 index a) = 0 \<Longrightarrow> kept_slice a index = take_nd 1 index a"
proof -
  assume "nsq (take_nd 1 index a) = 0"
  with nsq_take [OF a ax] have "nsq (take_nd 0 index a) = nsq a" by simp
  with nz show "kept_slice a index = take_nd 0 index a"
    by (simp add: kept_slice_def norm_nd_nsq)
next
  assume "nsq (take_nd 0 index a) = 0"
  then show "kept_slice a index = take_nd 1 index a"
    by (simp add: kept_slice_def norm_nd_nsq isclose_zero)
qed

text \<open>
  What \<open>remove_qubit(loc)\<close> does to a well-formed session whose norm passes the assertion: it
  keeps the slice with index 0 on that axis, or the slice with index 1 exactly when the norm
  of the index-0 slice is numerically zero, and divides it by its norm; the new tensor has
  norm 1 and one axis less. When the axis holds a collapsed state (one of the two slices is
  zero), the slice kept is the non-zero one. The method does not touch \<open>node_index\<close>, so the
  session it leaves has one label more than its tensor has axes.
\<close>

lemma remove_qubit_props:
  assumes "wf self" and "loc < length (node_index self)"
    and "\<not> isclose (norm_nd (psi self)) 0"
  shows "\<exists>self1.
           remove_qubit self loc = Inr self1
         \<and> psi self1 = div_nd (kept_slice (psi self) loc)
                          (complex_of_real (norm_nd (kept_slice (psi self) loc)))
         \<and> kept_slice (psi self) loc
             = (if isclose (norm_nd (take_nd 0 loc (psi self))) 0
                then take_nd 1 loc (psi self) else take_nd 0 loc (psi self))
         \<and> (nsq (take_nd 1 loc (psi self)) = 0 \<longrightarrow> kept_slice (psi self) loc = take_nd 0 loc (psi self))
         \<and> (nsq (take_nd 0 loc (psi self)) = 0 \<longrightarrow> kept_slice (psi self) loc = take_nd 1 loc (psi self))
         \<and> norm_nd (psi self1) = 1
         \<and> Suc (ndim (psi self1)) = ndim (psi self)
         \<and> node_index self1 = node_index self
         \<and> \<not> wf self1"
proof -
  let ?n = "length (node_index self)"
  from assms(2) obtain m where n: "?n = Suc m" by (cases ?n) auto
  have rk: "has_rank (Suc m) (psi self)" using assms(1) n by (simp add: wf_def)
  have ax: "loc \<le> m" using assms(2) n by simp
  have nd: "ndim (psi self) = Suc m" using rk by (rule has_rank_ndim)
  let ?k = "kept_slice (psi self) loc"
  let ?p = "div_nd ?k (complex_of_real (norm_nd ?k))"
  have rm: "remove_qubit self loc = Inr (self\<lparr>psi := ?p\<rparr>)"
    using assms(3) ax
    by (simp add: remove_qubit_def Let_def nd normalize_def kept_slice_def)
  have rkk: "has_rank m ?k"
    using has_rank_take [OF rk ax] by (simp add: kept_slice_def)
  then have rkp: "has_rank m ?p" by (simp add: has_rank_div)
  have one: "norm_nd ?p = 1"
    using nsq_normalized [OF kept_slice_nonzero [OF rk ax assms(3)]] by (simp add: norm_nd_nsq)
  have nwf: "\<not> wf (self\<lparr>psi := ?p\<rparr>)"
  proof
    assume "wf (self\<lparr>psi := ?p\<rparr>)"
    then have "has_rank (Suc m) ?p" using n by (simp add: wf_def)
    from has_rank_ndim [OF this] has_rank_ndim [OF rkp] show False by simp
  qed
  note br = kept_slice_branch [OF rk ax assms(3)]
  show ?thesis
    using rm one nwf br has_rank_ndim [OF rkp] nd
    by (auto simp: kept_slice_def)
qed

subsection \<open>Measuring a qubit\<close>

lemma evolution_total:
  assumes "has_rank n a" and "loc < n"
  shows "single_qubit_evolution (Array a) op loc = Inr (moveaxis0 loc (tensordot1 op a loc))"
    and "has_rank n (moveaxis0 loc (tensordot1 op a loc))"
proof -
  from assms obtain m where n: "n = Suc m" by (cases n) auto
  have a: "has_rank (Suc m) a" and ax: "loc \<le> m" using assms n by auto
  have r: "has_rank m (take_nd i loc a)" for i
    using a ax by (rule has_rank_take)
  show "single_qubit_evolution (Array a) op loc = Inr (moveaxis0 loc (tensordot1 op a loc))"
    using assms by (simp add: single_qubit_evolution_def has_rank_ndim [OF assms(1)])
  have "has_rank (Suc m) (tensordot1 op a loc)"
    unfolding tensordot1_def using r by (simp add: has_rank_add has_rank_scale)
  then show "has_rank n (moveaxis0 loc (tensordot1 op a loc))"
    unfolding n by (rule has_rank_moveaxis0)
qed

lemma remove_qubit_value:
  assumes "has_rank n (psi self)" and "loc < n"
  shows "remove_qubit self loc =
           (if isclose (norm_nd (psi self)) 0 then Inl AssertionError
            else Inr (self\<lparr>psi := div_nd (kept_slice (psi self) loc)
                                    (complex_of_real (norm_nd (kept_slice (psi self) loc)))\<rparr>))"
  using assms(2)
  by (simp add: remove_qubit_def Let_def has_rank_ndim [OF assms(1)] normalize_def kept_slice_def)

text \<open>
  The two projectors: \<open>meas_op(vec, 0)\<close> is \<open>I/2 + (x X + y Y + z Z)/2\<close>, and \<open>meas_op(vec, 1)\<close> has
  the Pauli term negated.
\<close>

lemma meas_op_0:
  "meas_op (x, y, z) 0 =
     Axis (Axis (Scalar (complex_of_real (1 + z) / 2)) (Scalar (Complex x (- y) / 2)))
          (Axis (Scalar (Complex x y / 2)) (Scalar (complex_of_real (1 - z) / 2)))"
  by (simp add: meas_op_def eye2_def CLIFFORD_def X_matrix_def Y_matrix_def Z_matrix_def
      complex_eq_iff field_simps)


lemma expectation_single_value:
  assumes "has_rank n (psi self)" and "loc < n"
  shows "expectation_single self op loc =
           Inr (if norm_nd (psi self) = 0 then None
                else Some (dot (map cnj (flatten (normalize self)))
                            (flatten (moveaxis0 loc (tensordot1 op (normalize self) loc)))))"
proof -
  have "has_rank n (normalize self)"
    using assms(1) by (simp add: normalize_def has_rank_div)
  from evolution_total(1) [OF this assms(2)] show ?thesis
    by (simp add: expectation_single_def Let_def)
qed

text \<open>
  What \<open>measure\<close> does on a well-formed state with a live label, once its collaborators have
  returned: the probability is computed, one sample is taken from \<open>random\<close>, and the
  projection raises.
\<close>

lemma measure_raises:
  assumes "wf self"
    and "sum_at measurements s_domain = Inr s_signal"
    and "sum_at measurements t_domain = Inr t_signal"
    and "compute ext plane (s_signal mod 2 = 1) (t_signal mod 2 = 1) vop = Inr mu"
    and "list_index (node_index self) index = Inr loc"
  shows "measure ext self g index plane angle s_domain t_domain measurements vop
         = (Inl IndexError, stl g)"
proof -
  let ?n = "length (node_index self)"
  have rk: "has_rank ?n (psi self)" using assms(1) by (simp add: wf_def)
  from list_index_Inr [OF assms(5)] have lt: "loc < ?n" by simp
  note ex = expectation_single_value [OF rk lt]
  show ?thesis
    unfolding measure_def using assms(2,3,4,5)
    by (simp add: ex Let_def random_random_def method_raises)
qed

lemma measure_example_expectation:
  "expectation_single \<lparr>psi = Axis (Scalar 1) (Scalar 0), node_index = [4]\<rparr> (meas_op (1, 0, 0) 0) 0
     = Inr (Some (1 / 2))"
proof -
  have n: "norm_nd (Axis (Scalar 1) (Scalar 0)) = 1" by (simp add: norm_nd_nsq)
  show ?thesis
    by (simp add: expectation_single_def normalize_def n single_qubit_evolution_def
        tensordot1_def meas_op_0 dot_def Complex_eq)
qed

lemma measure_example:
  "measure x_axis_ext \<lparr>psi = Axis (Scalar 1) (Scalar 0), node_index = [4]\<rparr> (r ## g0)
      4 XY 0 [] [] [] 0
     = (Inl IndexError, g0)"
proof -
  let ?s = "\<lparr>psi = Axis (Scalar 1) (Scalar 0), node_index = [4]\<rparr>"
  have h1: "wf ?s" by (simp add: wf_def)
  have h2: "sum_at [] [] = Inr 0" by simp
  have h4: "compute x_axis_ext XY ((0::int) mod 2 = 1) ((0::int) mod 2 = 1) 0
              = Inr \<lparr>new_plane = XY, coeff = 1, add_term = 0\<rparr>"
    by (simp add: x_axis_ext_def)
  have h5: "list_index (node_index ?s) 4 = Inr 0" by simp
  from measure_raises [OF h1 h2 h2 h4 h5, of "r ## g0" 0] show ?thesis by simp
qed

text \<open>
  C5: up to the draw \<open>measure\<close> does what the claim says, but it does not return the outcome.
  For the state |0> with label 4 and the measurement vector (1, 0, 0), the outcome-0
  projector is \<open>I/2 + X/2\<close>, the magnitude of its expectation is 1/2, and one sample is taken
  from \<open>random\<close>; the projection is then made through the method that passes the session
  object, and the call raises IndexError whether the sample is above 1/2 or not.
\<close>

theorem measure_raises_at_projection:
  "meas_op (1, 0, 0) 0
     = Axis (Axis (Scalar (1 / 2)) (Scalar (1 / 2))) (Axis (Scalar (1 / 2)) (Scalar (1 / 2)))
   \<and> expectation_single \<lparr>psi = Axis (Scalar 1) (Scalar 0), node_index = [4]\<rparr>
        (meas_op (1, 0, 0) 0) 0 = Inr (Some (1 / 2))
   \<and> measure x_axis_ext \<lparr>psi = Axis (Scalar 1) (Scalar 0), node_index = [4]\<rparr> (3 / 4 ## sconst 0)
        4 XY 0 [] [] [] 0 = (Inl IndexError, sconst 0)
   \<and> measure x_axis_ext \<lparr>psi = Axis (Scalar 1) (Scalar 0), node_index = [4]\<rparr> (1 / 4 ## sconst 0)
        4 XY 0 [] [] [] 0 = (Inl IndexError, sconst 0)"
proof (intro conjI)
  show "meas_op (1, 0, 0) 0
     = Axis (Axis (Scalar (1 / 2)) (Scalar (1 / 2))) (Axis (Scalar (1 / 2)) (Scalar (1 / 2)))"
    by (simp add: meas_op_0 Complex_eq)
qed (rule measure_example_expectation, (rule measure_example)+)





subsection \<open>The state of random and the outcome drawn\<close>

text \<open>
  \<open>measure\<close> is its first part followed by the projection and the removal; the state of
  \<open>random\<close> after the call is the one the first part leaves.
\<close>

lemma measure_after_draw:
  "measure ext self g index plane angle s_domain t_domain measurements vop
   = (case measure_draw ext self g index plane angle s_domain t_domain measurements vop of
        (Inl e, g1) \<Rightarrow> (Inl e, g1)
      | (Inr (measurement, op, loc), g1) \<Rightarrow>
     (case StateVec_single_qubit_evolution self op loc of Inl e \<Rightarrow> (Inl e, g1) | Inr p \<Rightarrow>
     (case remove_qubit (self\<lparr>psi := p\<rparr>) loc of Inl e \<Rightarrow> (Inl e, g1) | Inr self1 \<Rightarrow>
     (case list_remove (node_index self1) index of Inl e \<Rightarrow> (Inl e, g1) | Inr ni \<Rightarrow>
        (Inr (measurement, self1\<lparr>node_index := ni\<rparr>), g1)))))"
  unfolding measure_def measure_draw_def Let_def random_random_def
  by (simp split: sum.splits)






subsection \<open>Shared default list and axis-based swap\<close>

text \<open>
  C9: two sessions built with \<open>StateVec()\<close> share the default list object. After
  \<open>prepare_state(7)\<close> on the first, the second session's \<open>node_index\<close> is \<open>[7]\<close> although its
  tensor still has no axis; a session built afterwards starts with one qubit.
\<close>

theorem default_input_nodes_shared:
  "(let h0 = (\<lambda>a. []);
        s1 = new_StateVec_default h0;
        s2 = new_StateVec_default h0;
        (h1, s1') = prepare_state_obj h0 s1 7
    in node_index (view h0 s2) = []
     \<and> node_index (view h1 s2) = [7]
     \<and> psi (view h1 s2) = Scalar 1
     \<and> \<not> wf (view h1 s2)
     \<and> ndim (psi_of (new_StateVec_default h1)) = 1)"
  by (simp add: new_StateVec_default_def new_StateVec_def default_input_nodes_def view_def
      prepare_state_obj_def prepare_state_def tensor_def init_def wf_def Let_def)

text \<open>
  C1: \<open>swap\<close> does not resolve its arguments through \<open>node_index\<close>. With the labels 5 and 7 live
  on axes 0 and 1, \<open>swap((5, 7))\<close> raises IndexError where \<open>entangle(5, 7)\<close> finds both axes;
  with the labels 2, 0, 1 on axes 0, 1, 2 and the state |100>, \<open>swap((0, 1))\<close> exchanges axes
  0 and 1 (the qubits labelled 2 and 0) and returns |010>, where the exchange of the
  qubits labelled 0 and 1 leaves |100> as it is.
\<close>

theorem swap_ignores_node_index:
  "swap \<lparr>psi = Axis (Axis (Scalar 1) (Scalar 2)) (Axis (Scalar 3) (Scalar 4)), node_index = [5, 7]\<rparr>
        (5, 7) = Inl IndexError
   \<and> entangle \<lparr>psi = Axis (Axis (Scalar 1) (Scalar 2)) (Axis (Scalar 3) (Scalar 4)),
                 node_index = [5, 7]\<rparr> 5 7
       = Inr \<lparr>psi = Axis (Axis (Scalar 1) (Scalar 2)) (Axis (Scalar 3) (Scalar (- 4))),
               node_index = [5, 7]\<rparr>
   \<and> swap \<lparr>psi = Axis (Axis (Axis (Scalar 0) (Scalar 0)) (Axis (Scalar 0) (Scalar 0)))
                     (Axis (Axis (Scalar 1) (Scalar 0)) (Axis (Scalar 0) (Scalar 0))),
             node_index = [2, 0, 1]\<rparr> (0, 1)
       = Inr \<lparr>psi = Axis (Axis (Axis (Scalar 0) (Scalar 0)) (Axis (Scalar 1) (Scalar 0)))
                         (Axis (Axis (Scalar 0) (Scalar 0)) (Axis (Scalar 0) (Scalar 0))),
               node_index = [2, 0, 1]\<rparr>
   \<and> swap_by_label \<lparr>psi = Axis (Axis (Axis (Scalar 0) (Scalar 0)) (Axis (Scalar 0) (Scalar 0)))
                              (Axis (Axis (Scalar 1) (Scalar 0)) (Axis (Scalar 0) (Scalar 0))),
                      node_index = [2, 0, 1]\<rparr> (0, 1)
       = Inr \<lparr>psi = Axis (Axis (Axis (Scalar 0) (Scalar 0)) (Axis (Scalar 0) (Scalar 0)))
                         (Axis (Axis (Scalar 1) (Scalar 0)) (Axis (Scalar 0) (Scalar 0))),
               node_index = [2, 0, 1]\<rparr>"
  by (simp add: swap_by_label_def swap_def entangle_def tensordot2_def moveaxis01_def
      contract2_def take2_def SWAP_TENSOR_def CZ_TENSOR_def axis_ok_def norm_axis_def)

subsection \<open>The tensors entry by entry\<close>

text \<open>
  The operations above, read at a single multi-index: what each library call and each
  gate does to the amplitude at a given index.
\<close>

lemma item_add:
  "has_rank m x \<Longrightarrow> has_rank m y \<Longrightarrow> length ix = m \<Longrightarrow>
   item (add_nd x y) ix = item x ix + item y ix"
proof (induction x y arbitrary: m ix rule: add_nd.induct)
  case (1 x y)
  then show ?case by simp
next
  case (2 a b c d)
  then obtain k where m: "m = Suc k" by (cases m) auto
  with 2 obtain i ix' where ix: "ix = i # ix'" by (cases ix) auto
  with 2 m show ?case by auto
qed (auto elim: has_rank.elims)

lemma item_scale: "item (scale_nd c x) ix = c * item x ix"
proof (induction x arbitrary: ix)
  case (Scalar z)
  then show ?case by simp
next
  case (Axis a b)
  then show ?case by (cases ix) auto
qed

text \<open>\<open>a.take(i, axis=ax)[ix] = a[ix[:ax] + (i,) + ix[ax:]]\<close>.\<close>

lemma item_take_nd:
  "has_rank (Suc n) a \<Longrightarrow> ax \<le> n \<Longrightarrow> length ix = n \<Longrightarrow>
   item (take_nd i ax a) ix = item a (take ax ix @ i # drop ax ix)"
proof (induction ax arbitrary: n a ix)
  case 0
  then show ?case by (cases a) auto
next
  case (Suc ax)
  then obtain m where n: "n = Suc m" by (cases n) auto
  from Suc n obtain a0 a1 where a: "a = Axis a0 a1" by (cases a) auto
  from Suc n obtain j ix' where ix: "ix = j # ix'" by (cases ix) auto
  from Suc.prems n a ix have "has_rank (Suc m) a0" "has_rank (Suc m) a1" "ax \<le> m" "length ix' = m"
    by auto
  from Suc.IH [OF this(1,3,4)] Suc.IH [OF this(2,3,4)] a ix show ?case by simp
qed

text \<open>\<open>np.moveaxis(r, 0, ax)[ix] = r[(ix[ax],) + ix[:ax] + ix[ax+1:]]\<close>.\<close>

lemma item_moveaxis0:
  "has_rank (Suc n) r \<Longrightarrow> ax \<le> n \<Longrightarrow> length ix = Suc n \<Longrightarrow>
   item (moveaxis0 ax r) ix = item r (ix ! ax # take ax ix @ drop (Suc ax) ix)"
proof (induction ax arbitrary: n r ix)
  case 0
  then obtain j ix' where "ix = j # ix'" by (cases ix) auto
  then show ?case by simp
next
  case (Suc ax)
  then obtain m where n: "n = Suc m" by (cases n) auto
  from Suc.prems n obtain x y where r0: "r = Axis x y" by (cases r) auto
  from Suc.prems n r0 obtain a0 a1 where x: "x = Axis a0 a1" by (cases x) auto
  from Suc.prems n r0 obtain b0 b1 where y: "y = Axis b0 b1" by (cases y) auto
  note r = r0 [unfolded x y]
  from Suc.prems obtain j ix' where ix: "ix = j # ix'" by (cases ix) auto
  from Suc.prems n r ix have rk: "has_rank (Suc m) (Axis a0 b0)" "has_rank (Suc m) (Axis a1 b1)"
    and ax: "ax \<le> m" and len: "length ix' = Suc m"
    by auto
  from Suc.IH [OF rk(1) ax len] Suc.IH [OF rk(2) ax len] r ix show ?case by simp
qed

text \<open>
  The entries of the module-level \<open>single_qubit_evolution(psi, op, ax)\<close> for an array \<open>psi\<close>:
  the matrix \<open>op\<close> acts on the index at axis \<open>ax\<close> and on nothing else.
\<close>

lemma item_single_qubit_evolution:
  assumes "has_rank n a" and "ax < n" and "length ix = n"
    and "single_qubit_evolution (Array a) op ax = Inr p"
  shows "item p ix = item op [ix ! ax, 0] * item a (ix[ax := 0])
                   + item op [ix ! ax, 1] * item a (ix[ax := 1])"
proof -
  from assms obtain m where n: "n = Suc m" by (cases n) auto
  have a: "has_rank (Suc m) a" and le: "ax \<le> m" using assms n by auto
  let ?ix = "take ax ix @ drop (Suc ax) ix"
  have len: "length ?ix = m" using assms(2,3) n by auto
  have r: "has_rank m (scale_nd c (take_nd k ax a))" for c k
    using has_rank_take [OF a le] by (simp add: has_rank_scale)
  have tk: "item (take_nd k ax a) ?ix = item a (ix[ax := k])" for k
  proof -
    have "take ax ?ix @ k # drop ax ?ix = ix[ax := k]"
      using assms(2,3) by (simp add: upd_conv_take_nth_drop)
    with item_take_nd [OF a le len, of k] show ?thesis by simp
  qed
  have p: "p = moveaxis0 ax (tensordot1 op a ax)"
    using evolution_total(1) [OF assms(1,2), of op] assms(4) by simp
  have rt: "has_rank (Suc m) (tensordot1 op a ax)"
    unfolding tensordot1_def using r by (simp add: has_rank_add)
  have "item p ix = item (tensordot1 op a ax) (ix ! ax # ?ix)"
    unfolding p using rt le assms(3) n by (intro item_moveaxis0) simp_all
  also have "\<dots> = item op [ix ! ax, 0] * item a (ix[ax := 0])
                   + item op [ix ! ax, 1] * item a (ix[ax := 1])"
    using tk [of 0] tk [of 1]
    by (cases "ix ! ax = 0")
       (simp_all add: tensordot1_def item_add [OF r r len] item_scale, (cases op; simp)+)
  finally show ?thesis .
qed

lemma length_del_axis: "k < length ix \<Longrightarrow> length (del_axis k ix) = length ix - 1"
  by (auto simp: del_axis_def)

lemma nth_del_axis_below: "j < k \<Longrightarrow> k < length ix \<Longrightarrow> del_axis k ix ! j = ix ! j"
  by (simp add: del_axis_def nth_append)

lemma nth_del_axis_above:
  "k \<le> j \<Longrightarrow> Suc j < length ix \<Longrightarrow> del_axis k ix ! j = ix ! Suc j"
  by (simp add: del_axis_def nth_append min_def)

lemma del_axis_update_same: "del_axis k (ix[k := v]) = del_axis k ix"
  by (simp add: del_axis_def)

lemma del_axis_update_above:
  "k < j \<Longrightarrow> j < length ix \<Longrightarrow> del_axis k (ix[j := v]) = (del_axis k ix)[j - 1 := v]"
  by (cases j) (auto simp: del_axis_def list_update_append drop_update_swap min_def)

lemma del_axis_update_below:
  "j < k \<Longrightarrow> k < length ix \<Longrightarrow> del_axis k (ix[j := v]) = (del_axis k ix)[j := v]"
  by (auto simp: del_axis_def list_update_append take_update_swap)

lemma del_axes_update:
  assumes "c \<noteq> t" and "c < length ix" and "t < length ix"
  shows "del_axes c t (ix[c := u, t := v]) = del_axes c t ix"
proof (cases "c < t")
  case True
  have "del_axis c (ix[c := u, t := v]) = del_axis c (ix[t := v, c := u])"
    using assms by (simp add: list_update_swap)
  also have "\<dots> = (del_axis c ix)[t - 1 := v]"
    using True assms by (simp add: del_axis_update_same del_axis_update_above)
  finally show ?thesis
    using True by (simp add: del_axes_def del_axis_update_same)
next
  case False
  with assms have lt: "t < c" by simp
  have "del_axis t (ix[c := u, t := v]) = (del_axis t ix)[c - 1 := u]"
    using lt assms by (simp add: del_axis_update_same del_axis_update_above)
  then show ?thesis
    using False by (simp add: del_axes_def del_axis_update_same)
qed

lemma item_place2:
  assumes r: "has_rank m r00" "has_rank m r01" "has_rank m r10" "has_rank m r11"
    and ct: "c \<noteq> t" "c \<le> Suc m" "t \<le> Suc m" and len: "length ix = Suc (Suc m)"
  shows "item (place2 c t r00 r01 r10 r11) ix
         = item (if ix ! c = 0 then (if ix ! t = 0 then r00 else r01)
                 else (if ix ! t = 0 then r10 else r11)) (del_axes c t ix)"
proof (cases "c < t")
  case True
  let ?A = "moveaxis0 (t - 1) (Axis r00 r01)" and ?B = "moveaxis0 (t - 1) (Axis r10 r11)"
  let ?ix1 = "del_axis c ix"
  have t1: "t - 1 \<le> m" using True ct by auto
  have l1: "length ?ix1 = Suc m" using len ct by (simp add: length_del_axis)
  have n1: "?ix1 ! (t - 1) = ix ! t"
    using True ct len nth_del_axis_above [of c "t - 1" ix] by simp
  have "item (place2 c t r00 r01 r10 r11) ix = item (Axis ?A ?B) (ix ! c # ?ix1)"
    unfolding place2_def del_axis_def using True r ct len
    by (simp add: item_moveaxis0 [where n = "Suc m"] has_rank_moveaxis0)
  also have "\<dots> = item (if ix ! c = 0 then ?A else ?B) ?ix1" by simp
  also have "\<dots> = item (if ix ! c = 0 then Axis r00 r01 else Axis r10 r11)
                        (ix ! t # del_axis (t - 1) ?ix1)"
    using r t1 l1 n1 by (simp add: item_moveaxis0 [where n = m] del_axis_def)
  finally show ?thesis using True by (simp add: del_axes_def)
next
  case False
  with ct have lt: "t < c" by simp
  let ?A = "moveaxis0 (c - 1) (Axis r00 r10)" and ?B = "moveaxis0 (c - 1) (Axis r01 r11)"
  let ?ix1 = "del_axis t ix"
  have c1: "c - 1 \<le> m" using lt ct by auto
  have l1: "length ?ix1 = Suc m" using len ct by (simp add: length_del_axis)
  have n1: "?ix1 ! (c - 1) = ix ! c"
    using lt ct len nth_del_axis_above [of t "c - 1" ix] by simp
  have "item (place2 c t r00 r01 r10 r11) ix = item (Axis ?A ?B) (ix ! t # ?ix1)"
    unfolding place2_def del_axis_def using False r ct len
    by (simp add: item_moveaxis0 [where n = "Suc m"] has_rank_moveaxis0)
  also have "\<dots> = item (if ix ! t = 0 then ?A else ?B) ?ix1" by simp
  also have "\<dots> = item (if ix ! t = 0 then Axis r00 r10 else Axis r01 r11)
                        (ix ! c # del_axis (c - 1) ?ix1)"
    using r c1 l1 n1 by (simp add: item_moveaxis0 [where n = m] del_axis_def)
  finally show ?thesis using False by (simp add: del_axes_def)
qed

text \<open>
  The entries of the tensor after \<open>entangle\<close>: the amplitude changes sign exactly where the
  indices at both axes are 1.
\<close>

lemma item_cz_on:
  assumes a: "has_rank n a" and ct: "c \<noteq> t" "c < n" "t < n" and len: "length ix = n"
  shows "item (cz_on c t a) ix = (if ix ! c \<noteq> 0 \<and> ix ! t \<noteq> 0 then - item a ix else item a ix)"
proof -
  from ct obtain m where n: "n = Suc (Suc m)" by (cases n; cases "n - 1") auto
  have a': "has_rank (Suc (Suc m)) a" using a n by simp
  have ct': "c \<noteq> t" "c \<le> Suc m" "t \<le> Suc m" using ct n by auto
  have len': "length ix = Suc (Suc m)" using len n by simp
  have r: "has_rank m (take2 k c l t a)" for k l
    using a' ct' by (rule has_rank_take2)
  have rs: "has_rank m (scale_nd (- 1) (take2 (Suc 0) c (Suc 0) t a))"
    using r by (simp add: has_rank_scale)
  have "item a ix = item (place2 c t (take2 0 c 0 t a) (take2 0 c (Suc 0) t a)
                     (take2 (Suc 0) c 0 t a) (take2 (Suc 0) c (Suc 0) t a)) ix"
    using place2_take2 [OF a' ct'] by simp
  then show ?thesis
    unfolding cz_on_def item_place2 [OF r r r r ct' len'] item_place2 [OF r r r rs ct' len']
    by (simp add: item_scale)
qed

text \<open>The entries of the tensor after a swap of two axes: the two indices are exchanged.\<close>

lemma item_swap_on:
  assumes a: "has_rank n a" and ct: "c \<noteq> t" "c < n" "t < n" and len: "length ix = n"
  shows "item (swap_on c t a) ix = item a (ix[c := ix ! t, t := ix ! c])"
proof -
  from ct obtain m where n: "n = Suc (Suc m)" by (cases n; cases "n - 1") auto
  have a': "has_rank (Suc (Suc m)) a" using a n by simp
  have ct': "c \<noteq> t" "c \<le> Suc m" "t \<le> Suc m" using ct n by auto
  have len': "length ix = Suc (Suc m)" using len n by simp
  let ?jx = "ix[c := ix ! t, t := ix ! c]"
  have lenj: "length ?jx = Suc (Suc m)" using len' by simp
  have jc: "?jx ! c = ix ! t" and jt: "?jx ! t = ix ! c"
    using ct len by (simp_all add: nth_list_update)
  have r: "has_rank m (take2 k c l t a)" for k l
    using a' ct' by (rule has_rank_take2)
  have "item a ?jx = item (place2 c t (take2 0 c 0 t a) (take2 0 c (Suc 0) t a)
                     (take2 (Suc 0) c 0 t a) (take2 (Suc 0) c (Suc 0) t a)) ?jx"
    using place2_take2 [OF a' ct'] by simp
  then show ?thesis
    unfolding swap_on_def item_place2 [OF r r r r ct' len'] item_place2 [OF r r r r ct' lenj]
      jc jt del_axes_update [OF ct(1) ct(2,3) [folded len]]
    by simp
qed

end
